theory Spec2Isabelle
  imports Complex_Main "HOL-Library.Log_Nat"
begin

section \<open>VibeCommerce backend: the cart, its total and the mock checkout\<close>

text \<open>
  A shallow embedding of the Express/Mongoose server of the repository (the second
  document of \<^verbatim>\<open>src/README.md\<close>, lines 83 to 296): the two Mongoose models, the
  seeder and the handlers of \<^verbatim>\<open>GET /api/cart\<close>, \<^verbatim>\<open>POST /api/cart\<close>,
  \<^verbatim>\<open>DELETE /api/cart/:id\<close> and \<^verbatim>\<open>POST /api/checkout\<close>.

  Modelling decisions, each one visible in the definitions below:
  \<^item> A finite JavaScript Number is the rational it denotes (\<^typ>\<open>rat\<close>); the type
    \<open>number\<close> adds the two infinities and NaN. Every addition and multiplication of the
    source rounds its exact result to the nearest IEEE 754 double (\<open>fl\<close>), and a decimal
    literal of the source denotes the double nearest to it. The sign of zero is not
    modelled: the handlers compare, add and print Numbers, and none of that tells the two
    zeros apart.
  \<^item> An ObjectId is a natural number. The generator of fresh ObjectIds is the counter
    \<open>nextObjectId\<close> of the database state.
  \<^item> A collection is the list of its documents in insertion order, which is the order
    in which \<^verbatim>\<open>find({})\<close> returns them.
  \<^item> Every \<^verbatim>\<open>await\<close> of the source is a place where the database driver may throw.
    A handler takes a function \<open>f\<close> from these places to \<open>bool\<close>; \<open>f a\<close> says that
    the operation awaited at \<open>a\<close> throws, in which case it changes nothing and the
    handler's \<^verbatim>\<open>catch\<close> block answers with status 500.
  \<^item> Requests are handled one after the other; interleavings of concurrent requests are
    not modelled.
  \<^item> A request body carries a finite Number or nothing for \<^verbatim>\<open>quantity\<close>. An
    identifier in a request (\<^verbatim>\<open>productId\<close> of the body, \<^verbatim>\<open>:id\<close> of the URL) is a text
    that Mongoose casts to an ObjectId, or a text that it cannot cast; in the second case
    the query that receives it throws a CastError. Which texts cast is Mongoose's matter
    and not in the source, so the input says it: \<open>WellFormed i\<close> or \<open>Malformed\<close>.
\<close>

subsection \<open>JavaScript Numbers\<close>

datatype number = Finite rat | PosInfinity | NegInfinity | NaN

definition pow2 :: "int \<Rightarrow> rat" where
  "pow2 e = (if 0 \<le> e then 2 ^ nat e else 1 / 2 ^ nat (- e))"

text \<open>For \<open>0 < x\<close>, the exponent \<open>e\<close> with \<open>2 ^ e \<le> x < 2 ^ (e + 1)\<close>.\<close>

definition floorlog2 :: "rat \<Rightarrow> int" where
  "floorlog2 x = (if 1 \<le> x then bitlen \<lfloor>x\<rfloor> - 1 else - bitlen (\<lceil>1 / x\<rceil> - 1))"

text \<open>Rounding to the nearest integer, a tie going to the even one.\<close>

definition roundHalfEven :: "rat \<Rightarrow> int" where
  "roundHalfEven q =
     (let n = \<lfloor>q\<rfloor>; d = q - of_int n
      in if d < 1 / 2 then n else if 1 / 2 < d then n + 1 else if even n then n else n + 1)"

text \<open>The binary64 value nearest to \<open>x\<close>, ties to even, before the range check: 53
  significant bits, and below \<open>2 ^ - 1022\<close> the fixed spacing \<open>2 ^ - 1074\<close> of the
  subnormal numbers.\<close>

definition nearestDouble :: "rat \<Rightarrow> rat" where
  "nearestDouble x =
     (if x = 0 then 0
      else let e = max (floorlog2 \<bar>x\<bar>) (- 1022); ulp = pow2 (e - 52)
           in of_int (roundHalfEven (x / ulp)) * ulp)"

text \<open>The result of an arithmetic operation whose exact value is \<open>x\<close>: a rounded value
  of magnitude \<open>2 ^ 1024\<close> or more, that is with an exponent of 1024 or more, is an
  infinity.\<close>

definition fl :: "rat \<Rightarrow> number" where
  "fl x =
     (let r = nearestDouble x
      in if r = 0 then Finite 0
         else if 1024 \<le> floorlog2 \<bar>r\<bar> then (if 0 < r then PosInfinity else NegInfinity)
         else Finite r)"

text \<open>The operator \<^verbatim>\<open>+\<close> on two Numbers.\<close>

fun num_add :: "number \<Rightarrow> number \<Rightarrow> number" where
  "num_add (Finite a) (Finite b) = fl (a + b)"
| "num_add NaN y = NaN"
| "num_add x NaN = NaN"
| "num_add PosInfinity NegInfinity = NaN"
| "num_add NegInfinity PosInfinity = NaN"
| "num_add PosInfinity y = PosInfinity"
| "num_add NegInfinity y = NegInfinity"
| "num_add (Finite a) y = y"

text \<open>The operator \<^verbatim>\<open>*\<close> on two finite Numbers, which is all the handlers multiply:
  a stored price and a stored quantity.\<close>

definition num_mul :: "rat \<Rightarrow> rat \<Rightarrow> number" where
  "num_mul a b = fl (a * b)"

subsection \<open>Identifiers in requests\<close>

datatype idText = WellFormed nat | Malformed

subsection \<open>Schemas (lines 112 to 128)\<close>

record product_doc =
  product_id :: nat
  name :: string
  price :: rat
  image :: string

record cartItem_doc =
  cartItem_id :: nat
  product :: nat
  quantity :: rat

text \<open>The validators that \<^verbatim>\<open>cartItemSchema\<close> declares and \<^verbatim>\<open>save()\<close> runs:
  \<^verbatim>\<open>quantity: { type: Number, required: true, min: 1, default: 1 }\<close>.\<close>

definition cartItemSchema_valid :: "cartItem_doc \<Rightarrow> bool" where
  "cartItemSchema_valid c = (1 \<le> quantity c)"

subsection \<open>The database and its failures\<close>

record db =
  productDocs :: "product_doc list"
  cartItemDocs :: "cartItem_doc list"
  nextObjectId :: nat

datatype await_site =
    Seed_countDocuments | Seed_insertMany
  | GetCart_find
  | Post_findOne | Post_save_existing | Post_findById_Product | Post_save_new
  | Post_findById_populate
  | Delete_findByIdAndDelete
  | Checkout_find | Checkout_deleteMany

type_synonym faults = "await_site \<Rightarrow> bool"

definition noFaults :: faults where
  "noFaults = (\<lambda>a. False)"

definition emptyDb :: db where
  "emptyDb = \<lparr>productDocs = [], cartItemDocs = [], nextObjectId = 0\<rparr>"

text \<open>HTTP answers. \<open>Status200\<close> is \<^verbatim>\<open>res.json(...)\<close>, \<open>Status201\<close> is
  \<^verbatim>\<open>res.status(201).json(...)\<close>; \<open>Status400\<close>, \<open>Status404\<close> and \<open>Status500\<close> carry
  the \<^verbatim>\<open>message\<close> of the body and are what the specification calls
  ValidationError, NotFoundError and StoreError.\<close>

datatype 'a response =
    Status200 'a
  | Status201 'a
  | Status400 string
  | Status404 string
  | Status500 string

subsection \<open>Collection primitives\<close>

text \<open>\<^verbatim>\<open>Product.findById(id)\<close>, \<^verbatim>\<open>CartItem.findById(id)\<close> and
  \<^verbatim>\<open>CartItem.findOne({ product: productId })\<close>: the first matching document, or
  \<^verbatim>\<open>null\<close>.\<close>

definition Product_findById :: "nat \<Rightarrow> db \<Rightarrow> product_doc option" where
  "Product_findById i s = find (\<lambda>p. product_id p = i) (productDocs s)"

definition CartItem_findById :: "nat \<Rightarrow> db \<Rightarrow> cartItem_doc option" where
  "CartItem_findById i s = find (\<lambda>c. cartItem_id c = i) (cartItemDocs s)"

definition CartItem_findOne :: "nat \<Rightarrow> db \<Rightarrow> cartItem_doc option" where
  "CartItem_findOne productId s = find (\<lambda>c. product c = productId) (cartItemDocs s)"

text \<open>\<^verbatim>\<open>save()\<close> of a document that was read from the collection and whose
  \<^verbatim>\<open>quantity\<close> was assigned: the stored document with that \<^verbatim>\<open>_id\<close> gets the new
  quantity, in place.\<close>

fun updateQuantity :: "nat \<Rightarrow> rat \<Rightarrow> cartItem_doc list \<Rightarrow> cartItem_doc list" where
  "updateQuantity i q [] = []"
| "updateQuantity i q (c # cs) =
     (if cartItem_id c = i then c\<lparr>quantity := q\<rparr> # cs else c # updateQuantity i q cs)"

text \<open>The deletion that \<^verbatim>\<open>findByIdAndDelete\<close> performs.\<close>

fun deleteById :: "nat \<Rightarrow> cartItem_doc list \<Rightarrow> cartItem_doc list" where
  "deleteById i [] = []"
| "deleteById i (c # cs) = (if cartItem_id c = i then cs else c # deleteById i cs)"

text \<open>\<^verbatim>\<open>populate('product')\<close> swaps the product reference for the product document,
  or for \<^verbatim>\<open>null\<close> when the reference does not resolve.\<close>

record populated =
  populated_id :: nat
  populated_product :: "product_doc option"
  populated_quantity :: rat

definition populate :: "db \<Rightarrow> cartItem_doc \<Rightarrow> populated" where
  "populate s c =
     \<lparr>populated_id = cartItem_id c,
      populated_product = Product_findById (product c) s,
      populated_quantity = quantity c\<rparr>"

subsection \<open>Seeding (lines 131 to 155)\<close>

definition MOCK_PRODUCTS :: "(string \<times> rat \<times> string) list" where
  "MOCK_PRODUCTS =
    [(''Classic Vibe Tee'', nearestDouble 25,
        ''https://placehold.co/400x400/2D3748/E2E8F0?text=Vibe+Tee''),
     (''Retro Vibe Hoodie'', nearestDouble 55,
        ''https://placehold.co/400x400/4A5568/E2E8F0?text=Vibe+Hoodie''),
     (''Vibe Snapback Cap'', nearestDouble (1850 / 100),
        ''https://placehold.co/400x400/718096/E2E8F0?text=Vibe+Cap''),
     (''Aesthetic Vibe Mug'', nearestDouble (1299 / 100),
        ''https://placehold.co/400x400/2D3748/E2E8F0?text=Vibe+Mug''),
     (''Vibe-On-The-Go Tumbler'', nearestDouble 22,
        ''https://placehold.co/400x400/4A5568/E2E8F0?text=Vibe+Tumbler''),
     (''Minimalist Vibe Print'', nearestDouble 30,
        ''https://placehold.co/400x400/718096/E2E8F0?text=Vibe+Print'')]"

text \<open>\<^verbatim>\<open>Product.insertMany(docs)\<close> gives each document a fresh \<^verbatim>\<open>_id\<close> and appends
  it.\<close>

fun withIds :: "nat \<Rightarrow> (string \<times> rat \<times> string) list \<Rightarrow> product_doc list" where
  "withIds n [] = []"
| "withIds n ((nm, pr, im) # ds) =
     \<lparr>product_id = n, name = nm, price = pr, image = im\<rparr> # withIds (Suc n) ds"

definition Product_insertMany :: "(string \<times> rat \<times> string) list \<Rightarrow> db \<Rightarrow> db" where
  "Product_insertMany docs s =
     s\<lparr>productDocs := productDocs s @ withIds (nextObjectId s) docs,
       nextObjectId := nextObjectId s + length docs\<rparr>"

definition seedDatabase :: "faults \<Rightarrow> db \<Rightarrow> db" where
  "seedDatabase f s =
     (if f Seed_countDocuments then s
      else let productCount = length (productDocs s) in
        if productCount = 0 then
          (if f Seed_insertMany then s else Product_insertMany MOCK_PRODUCTS s)
        else s)"

subsection \<open>The total (lines 177 to 185 and 260 to 265, 280)\<close>

text \<open>The callback of \<^verbatim>\<open>cartItems.reduce\<close>, the same in both handlers.\<close>

definition addItem :: "number \<Rightarrow> populated \<Rightarrow> number" where
  "addItem acc item =
     (case populated_product item of
        Some p \<Rightarrow> num_add acc (num_mul (price p) (populated_quantity item))
      | None \<Rightarrow> acc)"

definition reduceTotal :: "populated list \<Rightarrow> number" where
  "reduceTotal cartItems = foldl addItem (Finite 0) cartItems"

text \<open>The decimal that \<^verbatim>\<open>x.toFixed(2)\<close> writes for a finite \<open>x\<close> of magnitude below
  \<open>10 ^ 21\<close>. ECMAScript's \<^verbatim>\<open>toFixed\<close> works on the magnitude of the exact value of \<open>x\<close>
  and takes the integer \<open>n\<close> for which \<open>n / 100\<close> is nearest to it, the larger one of two
  that are equally near.\<close>

definition toFixed2 :: "rat \<Rightarrow> rat" where
  "toFixed2 x =
     (if x < 0 then - (of_int \<lfloor>(- x) * 100 + 1 / 2\<rfloor> / 100)
      else of_int \<lfloor>x * 100 + 1 / 2\<rfloor> / 100)"

text \<open>\<^verbatim>\<open>parseFloat(x.toFixed(2))\<close>. \<^verbatim>\<open>parseFloat\<close> reads the decimal back as the nearest
  double. From \<open>10 ^ 21\<close> on, and for the infinities and NaN, \<^verbatim>\<open>toFixed\<close> writes what
  \<^verbatim>\<open>String(x)\<close> writes, which \<^verbatim>\<open>parseFloat\<close> reads back as \<open>x\<close>. In the JSON of the
  response a finite Number is written as such and an infinity or NaN as \<^verbatim>\<open>null\<close>.\<close>

definition parseFloat_toFixed2 :: "number \<Rightarrow> number" where
  "parseFloat_toFixed2 x =
     (case x of
        Finite r \<Rightarrow> if 10 ^ 21 \<le> \<bar>r\<bar> then Finite r else fl (toFixed2 r)
      | _ \<Rightarrow> x)"

subsection \<open>GET /api/cart (lines 171 to 190)\<close>

record cartBody =
  cartItems :: "populated list"
  total :: number

definition getCart :: "faults \<Rightarrow> db \<Rightarrow> cartBody response" where
  "getCart f s =
     (if f GetCart_find then Status500 ''Server error while fetching cart.''
      else let items = map (populate s) (cartItemDocs s);
               t = reduceTotal items
           in Status200 \<lparr>cartItems = items, total = parseFloat_toFixed2 t\<rparr>)"

subsection \<open>POST /api/cart (lines 194 to 231)\<close>

text \<open>The two fields of the body that the handler reads. \<open>None\<close> is a field that is
  missing; for \<^verbatim>\<open>productId\<close> it is also the empty text, which \<^verbatim>\<open>!productId\<close> treats as
  it treats a missing one.\<close>

record cartPost =
  body_productId :: "idText option"
  body_quantity :: "rat option"

definition invalidInput :: string where
  "invalidInput = ''Invalid input. Product ID and quantity > 0 required.''"

definition addingError :: string where
  "addingError = ''Server error while adding to cart.''"

text \<open>Lines 223 to 225: the saved item is read back, populated, and sent with status
  201.\<close>

definition respondWithItem :: "faults \<Rightarrow> nat \<Rightarrow> db \<Rightarrow> populated option response \<times> db" where
  "respondWithItem f i s =
     (if f Post_findById_populate then (Status500 addingError, s)
      else (Status201 (map_option (populate s) (CartItem_findById i s)), s))"

definition postCart :: "faults \<Rightarrow> cartPost \<Rightarrow> db \<Rightarrow> populated option response \<times> db" where
  "postCart f body s =
     (case body_productId body of
        None \<Rightarrow> (Status400 invalidInput, s)
      | Some idt \<Rightarrow>
     (case body_quantity body of
        None \<Rightarrow> (Status400 invalidInput, s)
      | Some qty \<Rightarrow>
        if qty = 0 \<or> qty < 1 then (Status400 invalidInput, s)
        else if f Post_findOne then (Status500 addingError, s)
        else
     (case idt of
        Malformed \<Rightarrow> (Status500 addingError, s)
      | WellFormed productId \<Rightarrow>
          (case CartItem_findOne productId s of
             Some cartItem \<Rightarrow>
               if f Post_save_existing \<or> \<not> cartItemSchema_valid (cartItem\<lparr>quantity := qty\<rparr>)
               then (Status500 addingError, s)
               else respondWithItem f (cartItem_id cartItem)
                      (s\<lparr>cartItemDocs :=
                           updateQuantity (cartItem_id cartItem) qty (cartItemDocs s)\<rparr>)
           | None \<Rightarrow>
               if f Post_findById_Product then (Status500 addingError, s)
               else
                 (case Product_findById productId s of
                    None \<Rightarrow> (Status404 ''Product not found.'', s)
                  | Some p \<Rightarrow>
                      let cartItem = \<lparr>cartItem_id = nextObjectId s, product = productId,
                                      quantity = qty\<rparr>
                      in if f Post_save_new \<or> \<not> cartItemSchema_valid cartItem
                         then (Status500 addingError, s)
                         else respondWithItem f (cartItem_id cartItem)
                                (s\<lparr>cartItemDocs := cartItemDocs s @ [cartItem],
                                   nextObjectId := Suc (nextObjectId s)\<rparr>))))))"

subsection \<open>DELETE /api/cart/:id (lines 235 to 250)\<close>

record deleteBody =
  delete_message :: string
  removedItem :: cartItem_doc

definition removingError :: string where
  "removingError = ''Server error while removing from cart.''"

definition deleteCart :: "faults \<Rightarrow> idText \<Rightarrow> db \<Rightarrow> deleteBody response \<times> db" where
  "deleteCart f idt s =
     (if f Delete_findByIdAndDelete then (Status500 removingError, s)
      else
     (case idt of
        Malformed \<Rightarrow> (Status500 removingError, s)
      | WellFormed i \<Rightarrow>
        (case CartItem_findById i s of
           None \<Rightarrow> (Status404 ''Cart item not found.'', s)
         | Some deletedItem \<Rightarrow>
             (Status200 \<lparr>delete_message = ''Item removed from cart.'', removedItem = deletedItem\<rparr>,
              s\<lparr>cartItemDocs := deleteById i (cartItemDocs s)\<rparr>))))"

subsection \<open>POST /api/checkout (lines 253 to 290)\<close>

record orderItem =
  item_name :: string
  item_quantity :: rat
  item_price :: rat

record orderBody =
  items :: "orderItem list"
  order_total :: number
  orderId :: nat
  timestamp :: string

record checkoutBody =
  success :: bool
  message :: string
  order :: orderBody

definition toOrderItem :: "populated \<Rightarrow> orderItem" where
  "toOrderItem item =
     \<lparr>item_name = (case populated_product item of Some p \<Rightarrow> name p | None \<Rightarrow> ''Unknown Item''),
      item_quantity = populated_quantity item,
      item_price = (case populated_product item of Some p \<Rightarrow> price p | None \<Rightarrow> 0)\<rparr>"

text \<open>\<open>now\<close> is what \<^verbatim>\<open>new Date().toISOString()\<close> returns when the handler runs.\<close>

definition checkout :: "faults \<Rightarrow> string \<Rightarrow> db \<Rightarrow> checkoutBody response \<times> db" where
  "checkout f now s =
     (if f Checkout_find then (Status500 ''Server error during checkout.'', s)
      else let cartItems = map (populate s) (cartItemDocs s);
               t = reduceTotal cartItems
        in if f Checkout_deleteMany then (Status500 ''Server error during checkout.'', s)
           else
             (Status200
                \<lparr>success = True,
                 message = ''Checkout successful! Thank you for your order.'',
                 order = \<lparr>items = map toOrderItem cartItems,
                          order_total = parseFloat_toFixed2 t,
                          orderId = nextObjectId s,
                          timestamp = now\<rparr>\<rparr>,
              s\<lparr>cartItemDocs := [], nextObjectId := Suc (nextObjectId s)\<rparr>))"

subsection \<open>Notions of the specification\<close>

text \<open>A line item resolves when its product reference finds a product in the Catalog
  Store.\<close>

definition resolves :: "db \<Rightarrow> cartItem_doc \<Rightarrow> bool" where
  "resolves s c = (Product_findById (product c) s \<noteq> None)"

text \<open>The specification's total before rounding: the sum, over the line items whose
  product resolves, of price times quantity.\<close>

definition exact_total :: "db \<Rightarrow> rat" where
  "exact_total s =
     (\<Sum>c \<leftarrow> filter (resolves s) (cartItemDocs s).
        price (the (Product_findById (product c) s)) * quantity c)"

text \<open>The total before \<^verbatim>\<open>toFixed\<close> as the handler computes it: the same line items,
  each product rounded to a double and the products added from the left, each partial
  sum rounded to a double.\<close>

definition float_total :: "db \<Rightarrow> number" where
  "float_total s =
     foldl num_add (Finite 0)
       (map (\<lambda>c. num_mul (price (the (Product_findById (product c) s))) (quantity c))
          (filter (resolves s) (cartItemDocs s)))"

text \<open>The quantities that a cart response shows for a product.\<close>

definition quantitiesOf :: "nat \<Rightarrow> cartBody \<Rightarrow> rat list" where
  "quantitiesOf productId b =
     map populated_quantity
       (filter (\<lambda>item. map_option product_id (populated_product item) = Some productId)
          (cartItems b))"

text \<open>The invariant of the data model: at most one line item per product reference.\<close>

definition cart_unique :: "db \<Rightarrow> bool" where
  "cart_unique s = distinct (map product (cartItemDocs s))"

text \<open>What MongoDB guarantees of the \<^verbatim>\<open>_id\<close> field of the cart collection: no two
  documents share one, and the generator does not hand out an identifier that is
  stored already.\<close>

definition ids_inv :: "db \<Rightarrow> bool" where
  "ids_inv s =
     (distinct (map cartItem_id (cartItemDocs s)) \<and>
      list_all (\<lambda>c. cartItem_id c < nextObjectId s) (cartItemDocs s))"

subsection \<open>States the server can be in\<close>

text \<open>No handler deletes a product. Line 178 of the source provides for a product that
  "was deleted but still in cart"; that can only be done on the database from outside the
  server, and \<open>removeProduct\<close> is that step.\<close>

definition removeProduct :: "nat \<Rightarrow> db \<Rightarrow> db" where
  "removeProduct i s = s\<lparr>productDocs := filter (\<lambda>p. product_id p \<noteq> i) (productDocs s)\<rparr>"

text \<open>The states that arise from the empty database by seeding, by the handlers (whatever
  fails in them) and by the removal of products from outside.\<close>

inductive reachable :: "db \<Rightarrow> bool" where
  r_empty: "reachable emptyDb"
| r_seed: "reachable s \<Longrightarrow> reachable (seedDatabase f s)"
| r_post: "reachable s \<Longrightarrow> reachable (snd (postCart f body s))"
| r_delete: "reachable s \<Longrightarrow> reachable (snd (deleteCart f idt s))"
| r_checkout: "reachable s \<Longrightarrow> reachable (snd (checkout f now s))"
| r_remove: "reachable s \<Longrightarrow> reachable (removeProduct i s)"

subsection \<open>Example states\<close>

text \<open>The seeded store. The cart of the specification's second example: one mug
  (product 3) and three caps (product 2), added by two calls of \<^verbatim>\<open>POST /api/cart\<close>. That
  cart after two tees (product 0) were added and the tee was then removed from the catalog
  from outside, which leaves a line item whose product does not resolve. The cart of the
  example after the quantity of the mug was set to 1.5. A cart of 10000000000001 mugs.
  And the failure of the clearing step of the checkout alone.\<close>

definition seededDb :: db where
  "seededDb = seedDatabase noFaults emptyDb"

definition demoDb :: db where
  "demoDb =
     snd (postCart noFaults \<lparr>body_productId = Some (WellFormed 2), body_quantity = Some 3\<rparr>
       (snd (postCart noFaults \<lparr>body_productId = Some (WellFormed 3), body_quantity = Some 1\<rparr>
          seededDb)))"

definition danglingDb :: db where
  "danglingDb =
     removeProduct 0
       (snd (postCart noFaults \<lparr>body_productId = Some (WellFormed 0), body_quantity = Some 2\<rparr>
          demoDb))"

definition fracDb :: db where
  "fracDb =
     snd (postCart noFaults \<lparr>body_productId = Some (WellFormed 3), body_quantity = Some (3 / 2)\<rparr>
            demoDb)"

definition bigDb :: db where
  "bigDb =
     snd (postCart noFaults
            \<lparr>body_productId = Some (WellFormed 3), body_quantity = Some 10000000000001\<rparr>
            seededDb)"

definition clearFails :: faults where
  "clearFails = (\<lambda>a. a = Checkout_deleteMany)"

section \<open>Auxiliary facts\<close>

subsection \<open>Rounding to hundredths\<close>

lemma floor_rat_numeral: "\<lfloor>numeral a / numeral b :: rat\<rfloor> = numeral a div numeral b"
  by (metis floor_divide_of_int_eq of_int_numeral)

lemma floor_rat_one: "\<lfloor>1 / numeral b :: rat\<rfloor> = 1 div numeral b"
  by (metis floor_divide_of_int_eq of_int_numeral of_int_1)

lemma round_hundredths_nonneg:
  fixes y :: rat
  shows "\<bar>of_int \<lfloor>y * 100 + 1 / 2\<rfloor> / 100 - y\<bar> \<le> 1 / 200"
proof -
  define n where "n = \<lfloor>y * 100 + 1 / 2\<rfloor>"
  have lo: "of_int n \<le> y * 100 + 1 / 2" unfolding n_def by (rule of_int_floor_le)
  have hi: "y * 100 + 1 / 2 < of_int n + 1" unfolding n_def by linarith
  have "of_int n / 100 - y \<le> 1 / 200" "- (of_int n / 100 - y) \<le> 1 / 200"
    using lo hi by (simp_all add: field_simps)
  then have "\<bar>of_int n / 100 - y\<bar> \<le> 1 / 200"
    by (rule abs_leI)
  then show ?thesis by (simp only: n_def)
qed

lemma toFixed2_hundredths: "\<exists>n::int. toFixed2 x = of_int n / 100"
proof (cases "x < 0")
  case True
  then have "toFixed2 x = of_int (- \<lfloor>(- x) * 100 + 1 / 2\<rfloor>) / 100"
    by (simp add: toFixed2_def)
  then show ?thesis by blast
next
  case False
  then have "toFixed2 x = of_int \<lfloor>x * 100 + 1 / 2\<rfloor> / 100"
    by (simp add: toFixed2_def)
  then show ?thesis by blast
qed

lemma toFixed2_nearest: "\<bar>toFixed2 x - x\<bar> \<le> 1 / 200"
proof (cases "x < 0")
  case True
  have "\<bar>of_int \<lfloor>(- x) * 100 + 1 / 2\<rfloor> / 100 - (- x)\<bar> \<le> 1 / 200"
    by (rule round_hundredths_nonneg)
  moreover have "toFixed2 x - x = - (of_int \<lfloor>(- x) * 100 + 1 / 2\<rfloor> / 100 - (- x))"
    using True by (simp add: toFixed2_def)
  ultimately show ?thesis by (simp only: abs_minus_cancel)
next
  case False
  then show ?thesis using round_hundredths_nonneg[of x] by (simp add: toFixed2_def)
qed

lemma toFixed2_zero: "toFixed2 0 = 0"
  by (simp add: toFixed2_def floor_rat_one)

subsection \<open>The example states, evaluated\<close>

lemma noFaults_False: "\<not> noFaults a"
  by (simp add: noFaults_def)

text \<open>What a call of \<^verbatim>\<open>POST /api/cart\<close> on a concrete state unfolds to.\<close>

lemmas post_defs = postCart_def respondWithItem_def noFaults_def CartItem_findOne_def
  CartItem_findById_def Product_findById_def cartItemSchema_valid_def populate_def
  MOCK_PRODUCTS_def

lemma seededDb_eval:
  "seededDb = \<lparr>productDocs = withIds 0 MOCK_PRODUCTS, cartItemDocs = [], nextObjectId = 6\<rparr>"
  by (simp add: seededDb_def seedDatabase_def noFaults_def emptyDb_def Product_insertMany_def
      MOCK_PRODUCTS_def)

lemma demoDb_eval:
  "demoDb = \<lparr>productDocs = withIds 0 MOCK_PRODUCTS,
     cartItemDocs = [\<lparr>cartItem_id = 6, product = 3, quantity = 1\<rparr>,
                     \<lparr>cartItem_id = 7, product = 2, quantity = 3\<rparr>],
     nextObjectId = 8\<rparr>"
  unfolding demoDb_def seededDb_eval by (simp add: post_defs)

lemma danglingDb_eval:
  "danglingDb = \<lparr>productDocs = withIds 1 (tl MOCK_PRODUCTS),
     cartItemDocs = [\<lparr>cartItem_id = 6, product = 3, quantity = 1\<rparr>,
                     \<lparr>cartItem_id = 7, product = 2, quantity = 3\<rparr>,
                     \<lparr>cartItem_id = 8, product = 0, quantity = 2\<rparr>],
     nextObjectId = 9\<rparr>"
  unfolding danglingDb_def demoDb_eval by (simp add: post_defs removeProduct_def)

lemma fracDb_eval:
  "fracDb = \<lparr>productDocs = withIds 0 MOCK_PRODUCTS,
     cartItemDocs = [\<lparr>cartItem_id = 6, product = 3, quantity = 3 / 2\<rparr>,
                     \<lparr>cartItem_id = 7, product = 2, quantity = 3\<rparr>],
     nextObjectId = 8\<rparr>"
  unfolding fracDb_def demoDb_eval by (simp add: post_defs)

lemma bigDb_eval:
  "bigDb = \<lparr>productDocs = withIds 0 MOCK_PRODUCTS,
     cartItemDocs = [\<lparr>cartItem_id = 6, product = 3, quantity = 10000000000001\<rparr>],
     nextObjectId = 7\<rparr>"
  unfolding bigDb_def seededDb_eval by (simp add: post_defs)

subsection \<open>Doubles\<close>

lemma nearestDouble_zero: "nearestDouble 0 = 0"
  by (simp add: nearestDouble_def)

lemma fl_zero: "fl 0 = Finite 0"
  by (simp add: fl_def nearestDouble_zero)

lemma parseFloat_toFixed2_zero: "parseFloat_toFixed2 (Finite 0) = Finite 0"
  by (simp add: parseFloat_toFixed2_def toFixed2_zero fl_zero)

text \<open>The model rounds as IEEE 754 does: the price 12.99 is the double
  \<open>7312719894942843 / 2 ^ 49\<close>, and \<^verbatim>\<open>0.1 + 0.2\<close> is not \<^verbatim>\<open>0.3\<close> but the next double
  above it.\<close>

lemma nearestDouble_1299: "nearestDouble (1299 / 100) = 7312719894942843 / 562949953421312"
  by code_simp

lemma tenth_plus_fifth:
  "num_add (Finite (nearestDouble (1 / 10))) (Finite (nearestDouble (2 / 10)))
     = Finite (1351079888211149 / 4503599627370496)
   \<and> nearestDouble (3 / 10) = 5404319552844595 / 18014398509481984"
  by code_simp

text \<open>A product whose rounded value has an exponent of 1024 or more is an infinity, and
  an infinity stays in the total, which the JSON of the response writes as \<^verbatim>\<open>null\<close>.\<close>

lemma num_mul_overflow:
  "0 < nearestDouble (a * b) \<Longrightarrow> 1024 \<le> floorlog2 \<bar>nearestDouble (a * b)\<bar> \<Longrightarrow>
     num_mul a b = PosInfinity"
  by (simp add: num_mul_def fl_def)

lemma infinity_stays:
  "num_add (Finite a) PosInfinity = PosInfinity"
  "num_add PosInfinity (Finite a) = PosInfinity"
  "parseFloat_toFixed2 PosInfinity = PosInfinity"
  by (simp_all add: parseFloat_toFixed2_def)

subsection \<open>The reduction adds the resolving line items from the left\<close>

lemma foldl_addItem_populate:
  "foldl addItem a (map (populate s) cs) =
     foldl num_add a
       (map (\<lambda>c. num_mul (price (the (Product_findById (product c) s))) (quantity c))
          (filter (resolves s) cs))"
  by (induction cs arbitrary: a) (auto simp: addItem_def populate_def resolves_def)

lemma reduceTotal_float: "reduceTotal (map (populate s) (cartItemDocs s)) = float_total s"
  by (simp add: reduceTotal_def float_total_def foldl_addItem_populate)

lemma populate_unresolved:
  "\<not> resolves s c \<Longrightarrow>
     populate s c = \<lparr>populated_id = cartItem_id c, populated_product = None,
                     populated_quantity = quantity c\<rparr>"
  by (simp add: populate_def resolves_def)

subsection \<open>The rounding is to the nearest double\<close>

text \<open>\<open>floorlog2\<close> finds the binary exponent, \<open>roundHalfEven\<close> moves by at most one half,
  and so \<open>nearestDouble x\<close> lies within half a unit in the last place of \<open>x\<close>.\<close>

lemma roundHalfEven_near: "\<bar>of_int (roundHalfEven q) - q\<bar> \<le> 1 / 2"
proof -
  define n where "n = \<lfloor>q\<rfloor>"
  have lo: "of_int n \<le> q" unfolding n_def by (rule of_int_floor_le)
  have hi: "q < of_int n + 1" unfolding n_def by linarith
  have "roundHalfEven q =
      (if q - of_int n < 1 / 2 then n else if 1 / 2 < q - of_int n then n + 1
       else if even n then n else n + 1)"
    by (simp add: roundHalfEven_def n_def Let_def)
  then show ?thesis using lo hi by (auto simp: abs_le_iff split: if_splits)
qed

lemma pow2_pos: "0 < pow2 e"
  by (simp add: pow2_def)

lemma pow2_nonneg_exp: "0 \<le> e \<Longrightarrow> pow2 e = 2 ^ nat e"
  by (simp add: pow2_def)

lemma pow2_Suc: "pow2 (e + 1) = 2 * pow2 e"
proof (cases "0 \<le> e")
  case True
  then show ?thesis by (simp add: pow2_def nat_add_distrib)
next
  case False
  then have "nat (- e) = Suc (nat (- (e + 1)))" by simp
  then show ?thesis using False by (simp add: pow2_def)
qed

lemma floorlog2_bounds:
  assumes "0 < x"
  shows "pow2 (floorlog2 x) \<le> x \<and> x < pow2 (floorlog2 x + 1)"
proof (cases "1 \<le> x")
  case True
  define n where "n = \<lfloor>x\<rfloor>"
  from True have n1: "1 \<le> n" unfolding n_def by simp
  then have n0: "0 < n" by simp
  have e: "floorlog2 x = bitlen n - 1" using True by (simp add: floorlog2_def n_def)
  from n0 have b1: "1 \<le> bitlen n" by (simp add: bitlen_alt_def)
  from bitlen_bounds[OF n0] have lo: "2 ^ nat (bitlen n - 1) \<le> n" and hi: "n < 2 ^ nat (bitlen n)"
    by simp_all
  have "pow2 (floorlog2 x) = of_int (2 ^ nat (bitlen n - 1))"
    using b1 by (simp add: e pow2_def)
  also have "\<dots> \<le> of_int n" using lo by (simp only: of_int_le_iff)
  also have "\<dots> \<le> x" unfolding n_def by (rule of_int_floor_le)
  finally have 1: "pow2 (floorlog2 x) \<le> x" .
  from hi have "n + 1 \<le> 2 ^ nat (bitlen n)" by simp
  then have "(of_int (n + 1) :: rat) \<le> of_int (2 ^ nat (bitlen n))" by (simp only: of_int_le_iff)
  moreover have "x < of_int (n + 1)" unfolding n_def by (simp only: of_int_add of_int_1) linarith
  moreover have "pow2 (floorlog2 x + 1) = of_int (2 ^ nat (bitlen n))"
    using b1 by (simp add: e pow2_def)
  ultimately have 2: "x < pow2 (floorlog2 x + 1)" by simp
  from 1 2 show ?thesis ..
next
  case False
  define y where "y = 1 / x"
  define m where "m = \<lceil>y\<rceil> - 1"
  from False assms have y1: "1 < y" unfolding y_def by simp
  then have "2 \<le> \<lceil>y\<rceil>" by (simp add: le_ceiling_iff)
  then have m0: "0 < m" unfolding m_def by simp
  have e: "floorlog2 x = - bitlen m" using False by (simp add: floorlog2_def m_def y_def)
  from m0 have b1: "1 \<le> bitlen m" by (simp add: bitlen_alt_def)
  from bitlen_bounds[OF m0] have lo: "2 ^ nat (bitlen m - 1) \<le> m" and hi: "m < 2 ^ nat (bitlen m)"
    by simp_all
  have my: "of_int m < y" unfolding m_def by linarith
  have ym: "y \<le> of_int (m + 1)" unfolding m_def by simp
  from hi have "m + 1 \<le> 2 ^ nat (bitlen m)" by simp
  then have "(of_int (m + 1) :: rat) \<le> of_int (2 ^ nat (bitlen m))" by (simp only: of_int_le_iff)
  with ym have yhi: "y \<le> 2 ^ nat (bitlen m)" by simp
  from lo have "(of_int (2 ^ nat (bitlen m - 1)) :: rat) \<le> of_int m" by (simp only: of_int_le_iff)
  then have "(2 :: rat) ^ nat (bitlen m - 1) \<le> of_int m" by (simp only: of_int_power of_int_numeral)
  with my have ylo: "2 ^ nat (bitlen m - 1) < y" by linarith
  have xy: "x = 1 / y" unfolding y_def by simp
  have y0: "0 < y" using y1 by simp
  have "pow2 (floorlog2 x) = 1 / 2 ^ nat (bitlen m)"
    using b1 by (simp add: e pow2_def)
  also have "\<dots> \<le> 1 / y" using yhi y0 by (simp add: frac_le)
  finally have 1: "pow2 (floorlog2 x) \<le> x" by (simp add: xy)
  have "pow2 (floorlog2 x + 1) = 1 / 2 ^ nat (bitlen m - 1)"
  proof (cases "bitlen m = 1")
    case True
    then show ?thesis by (simp add: e pow2_def)
  next
    case False
    with b1 have "1 < bitlen m" by simp
    then have "nat (- (- bitlen m + 1)) = nat (bitlen m - 1)" by simp
    with \<open>1 < bitlen m\<close> show ?thesis by (simp add: e pow2_def)
  qed
  moreover have "1 / y < 1 / 2 ^ nat (bitlen m - 1)"
    using ylo by (simp add: frac_less2)
  ultimately have 2: "x < pow2 (floorlog2 x + 1)" by (simp add: xy)
  from 1 2 show ?thesis ..
qed

lemma nearestDouble_half_ulp:
  "\<bar>nearestDouble x - x\<bar> \<le> pow2 (max (floorlog2 \<bar>x\<bar>) (- 1022) - 52) / 2"
proof (cases "x = 0")
  case True
  then show ?thesis using pow2_pos[of "max (floorlog2 \<bar>x\<bar>) (- 1022) - 52"]
    by (simp add: nearestDouble_def)
next
  case False
  define u where "u = pow2 (max (floorlog2 \<bar>x\<bar>) (- 1022) - 52)"
  have u0: "0 < u" unfolding u_def by (rule pow2_pos)
  have nd: "nearestDouble x = of_int (roundHalfEven (x / u)) * u"
    using False by (simp add: nearestDouble_def Let_def u_def)
  have "\<bar>of_int (roundHalfEven (x / u)) - x / u\<bar> \<le> 1 / 2" by (rule roundHalfEven_near)
  then have "\<bar>of_int (roundHalfEven (x / u)) - x / u\<bar> * u \<le> 1 / 2 * u"
    using u0 by (simp only: mult_le_cancel_right_pos)
  moreover have "\<bar>of_int (roundHalfEven (x / u)) - x / u\<bar> * u
      = \<bar>of_int (roundHalfEven (x / u)) * u - x\<bar>"
  proof -
    have "(of_int (roundHalfEven (x / u)) - x / u) * u = of_int (roundHalfEven (x / u)) * u - x"
      using u0 by (simp add: left_diff_distrib)
    then have "\<bar>of_int (roundHalfEven (x / u)) * u - x\<bar>
        = \<bar>of_int (roundHalfEven (x / u)) - x / u\<bar> * \<bar>u\<bar>"
      by (simp only: abs_mult[symmetric])
    with u0 show ?thesis by simp
  qed
  ultimately show ?thesis by (simp add: nd u_def)
qed

subsection \<open>Updating and deleting in the cart collection\<close>

lemma map_product_updateQuantity: "map product (updateQuantity i q cs) = map product cs"
  by (induction cs) auto

lemma map_id_updateQuantity: "map cartItem_id (updateQuantity i q cs) = map cartItem_id cs"
  by (induction cs) auto

lemma find_product_None: "find (\<lambda>c. product c = p) cs = None \<longleftrightarrow> p \<notin> set (map product cs)"
  by (induction cs) auto

lemma find_id_None: "find (\<lambda>c. cartItem_id c = i) cs = None \<longleftrightarrow> i \<notin> set (map cartItem_id cs)"
  by (induction cs) auto

lemma find_product_Some: "find (\<lambda>c. product c = p) cs = Some c \<Longrightarrow> c \<in> set cs \<and> product c = p"
  by (induction cs) (auto split: if_splits)

lemma find_id_Some: "find (\<lambda>c. cartItem_id c = i) cs = Some c \<Longrightarrow> c \<in> set cs \<and> cartItem_id c = i"
  by (induction cs) (auto split: if_splits)

lemma filter_product_updateQuantity:
  assumes "distinct (map cartItem_id cs)" and "distinct (map product cs)"
    and "find (\<lambda>c. product c = p) cs = Some c0"
  shows "filter (\<lambda>c. product c = p) (updateQuantity (cartItem_id c0) q cs) = [c0\<lparr>quantity := q\<rparr>]"
  using assms
proof (induction cs)
  case Nil
  then show ?case by simp
next
  case (Cons c cs)
  show ?case
  proof (cases "product c = p")
    case True
    with Cons.prems(3) have c0: "c0 = c" by simp
    from True Cons.prems(2) have "p \<notin> set (map product cs)" by auto
    then have "filter (\<lambda>c. product c = p) cs = []"
      by (auto simp: filter_empty_conv)
    with True c0 show ?thesis by simp
  next
    case False
    with Cons.prems(3) have f: "find (\<lambda>c. product c = p) cs = Some c0" by simp
    from Cons.prems(1,2) have d: "distinct (map cartItem_id cs)" "distinct (map product cs)"
      by simp_all
    have ih: "filter (\<lambda>c. product c = p) (updateQuantity (cartItem_id c0) q cs)
                = [c0\<lparr>quantity := q\<rparr>]"
      by (rule Cons.IH[OF d f])
    from find_product_Some[OF f] have "c0 \<in> set cs" by simp
    with Cons.prems(1) have "cartItem_id c \<noteq> cartItem_id c0" by auto
    with False ih show ?thesis by simp
  qed
qed

lemma find_product_updateQuantity:
  assumes "distinct (map cartItem_id cs)" and "find (\<lambda>c. product c = p) cs = Some c0"
  shows "find (\<lambda>c. product c = p) (updateQuantity (cartItem_id c0) q cs) = Some (c0\<lparr>quantity := q\<rparr>)"
  using assms
proof (induction cs)
  case Nil
  then show ?case by simp
next
  case (Cons c cs)
  show ?case
  proof (cases "product c = p")
    case True
    with Cons.prems(2) have "c0 = c" by simp
    with True show ?thesis by simp
  next
    case False
    with Cons.prems(2) have f: "find (\<lambda>c. product c = p) cs = Some c0" by simp
    from Cons.prems(1) have d: "distinct (map cartItem_id cs)" by simp
    have ih: "find (\<lambda>c. product c = p) (updateQuantity (cartItem_id c0) q cs)
                = Some (c0\<lparr>quantity := q\<rparr>)"
      by (rule Cons.IH[OF d f])
    from find_product_Some[OF f] have "c0 \<in> set cs" by simp
    with Cons.prems(1) have "cartItem_id c \<noteq> cartItem_id c0" by auto
    with False ih show ?thesis by simp
  qed
qed

lemma find_id_updateQuantity:
  assumes "c0 \<in> set cs" and "distinct (map cartItem_id cs)"
  shows "find (\<lambda>c. cartItem_id c = cartItem_id c0) (updateQuantity (cartItem_id c0) q cs)
           = Some (c0\<lparr>quantity := q\<rparr>)"
  using assms by (induction cs) auto

lemma find_id_append_new:
  assumes "list_all (\<lambda>c. cartItem_id c < n) cs" and "cartItem_id new = n"
  shows "find (\<lambda>c. cartItem_id c = n) (cs @ [new]) = Some new"
  using assms by (induction cs) auto

lemma find_product_append_new:
  assumes "find (\<lambda>c. product c = p) cs = None" and "product new = p"
  shows "find (\<lambda>c. product c = p) (cs @ [new]) = Some new"
  using assms by (induction cs) (auto split: if_splits)

lemma filter_product_append_new:
  assumes "find (\<lambda>c. product c = p) cs = None" and "product new = p"
  shows "filter (\<lambda>c. product c = p) (cs @ [new]) = [new]"
  using assms by (induction cs) (auto split: if_splits)

lemma set_deleteById: "set (deleteById i cs) \<subseteq> set cs"
  by (induction cs) auto

lemma distinct_map_deleteById:
  "distinct (map h cs) \<Longrightarrow> distinct (map h (deleteById i cs))"
proof (induction cs)
  case Nil
  then show ?case by simp
next
  case (Cons c cs)
  then have "h c \<notin> h ` set cs" by simp
  moreover have "set (deleteById i cs) \<subseteq> set cs" by (rule set_deleteById)
  ultimately have "h c \<notin> h ` set (deleteById i cs)" by blast
  with Cons show ?case by simp
qed

lemma deleteById_removes:
  "distinct (map cartItem_id cs) \<Longrightarrow> i \<notin> set (map cartItem_id (deleteById i cs))"
  by (induction cs) auto

lemma deleteById_filter:
  "distinct (map cartItem_id cs) \<Longrightarrow> deleteById i cs = filter (\<lambda>c. cartItem_id c \<noteq> i) cs"
proof (induction cs)
  case Nil
  then show ?case by simp
next
  case (Cons c cs)
  show ?case
  proof (cases "cartItem_id c = i")
    case True
    with Cons.prems have "i \<notin> set (map cartItem_id cs)" by auto
    then have "filter (\<lambda>c. cartItem_id c \<noteq> i) cs = cs"
      by (auto simp: filter_id_conv)
    with True show ?thesis by simp
  next
    case False
    with Cons show ?thesis by simp
  qed
qed

lemma list_all_deleteById:
  "list_all P cs \<Longrightarrow> list_all P (deleteById i cs)"
  by (induction cs) auto

lemma list_all_id_updateQuantity:
  "list_all (\<lambda>c. cartItem_id c < n) cs \<Longrightarrow> list_all (\<lambda>c. cartItem_id c < n) (updateQuantity i q cs)"
  by (induction cs) auto

subsection \<open>Checkout and seeding\<close>

lemma getCart_empty:
  "\<not> g GetCart_find \<Longrightarrow> cartItemDocs s = [] \<Longrightarrow>
     getCart g s = Status200 \<lparr>cartItems = [], total = Finite 0\<rparr>"
  by (simp add: getCart_def reduceTotal_def parseFloat_toFixed2_zero)

lemma withIds_fields: "map (\<lambda>p. (name p, price p, image p)) (withIds n ds) = ds"
  by (induction n ds rule: withIds.induct) auto

lemma withIds_Nil_iff: "withIds n ds = [] \<longleftrightarrow> ds = []"
  by (induction n ds rule: withIds.induct) auto

lemma seedDatabase_populated: "productDocs s \<noteq> [] \<Longrightarrow> seedDatabase g s = s"
  by (simp add: seedDatabase_def)

lemma seedDatabase_success:
  assumes "productDocs s = []" and "\<not> f Seed_countDocuments" and "\<not> f Seed_insertMany"
  shows "seedDatabase f s =
           s\<lparr>productDocs := withIds (nextObjectId s) MOCK_PRODUCTS,
             nextObjectId := nextObjectId s + 6\<rparr>"
  using assms by (simp add: seedDatabase_def Product_insertMany_def MOCK_PRODUCTS_def)

lemma MOCK_PRODUCTS_nonempty: "MOCK_PRODUCTS \<noteq> []"
  by (simp add: MOCK_PRODUCTS_def)

lemma seedDatabase_after_success:
  assumes "\<not> f Seed_countDocuments" and "\<not> f Seed_insertMany"
  shows "seedDatabase g (seedDatabase f s) = seedDatabase f s"
proof (cases "productDocs s = []")
  case True
  then have "productDocs (seedDatabase f s) \<noteq> []"
    using assms by (simp add: seedDatabase_success withIds_Nil_iff MOCK_PRODUCTS_nonempty)
  then show ?thesis by (rule seedDatabase_populated)
next
  case False
  then show ?thesis by (simp add: seedDatabase_populated)
qed

subsection \<open>The POST handler\<close>

lemma populated_product_id:
  "map_option product_id (Product_findById i s) = Some p \<longleftrightarrow>
     i = p \<and> Product_findById p s \<noteq> None"
proof (cases "Product_findById i s")
  case None
  then show ?thesis by auto
next
  case (Some d)
  then have "product_id d = i"
    unfolding Product_findById_def by (auto simp: find_Some_iff)
  with Some show ?thesis by auto
qed

lemma quantitiesOf_getCart:
  assumes "Product_findById p s \<noteq> None"
  shows "quantitiesOf p \<lparr>cartItems = map (populate s) cs, total = t\<rparr>
           = map quantity (filter (\<lambda>c. product c = p) cs)"
proof -
  have eq: "(map_option product_id (populated_product (populate s c)) = Some p) = (product c = p)"
    for c
  proof -
    have "populated_product (populate s c) = Product_findById (product c) s"
      by (simp add: populate_def)
    then have "(map_option product_id (populated_product (populate s c)) = Some p)
                 = (product c = p \<and> Product_findById p s \<noteq> None)"
      by (simp only: populated_product_id)
    with assms show ?thesis by simp
  qed
  have q: "populated_quantity (populate s c) = quantity c" for c
    by (simp add: populate_def)
  have eq': "(\<exists>z. populated_product (populate s c) = Some z \<and> product_id z = p)
               = (product c = p)" for c
    using eq[of c] by simp
  show ?thesis
    by (simp add: quantitiesOf_def filter_map comp_def eq' q)
qed

text \<open>The state after a successful POST, by the branch taken.\<close>

lemma postCart_existing:
  assumes "CartItem_findOne productId s = Some c" and "1 \<le> qty"
  shows "postCart noFaults \<lparr>body_productId = Some (WellFormed productId), body_quantity = Some qty\<rparr> s =
           (let s' = s\<lparr>cartItemDocs := updateQuantity (cartItem_id c) qty (cartItemDocs s)\<rparr>
            in (Status201 (map_option (populate s') (CartItem_findById (cartItem_id c) s')), s'))"
  using assms
  by (simp add: postCart_def respondWithItem_def noFaults_def cartItemSchema_valid_def Let_def)

lemma postCart_new:
  assumes "CartItem_findOne productId s = None" and "Product_findById productId s = Some p"
    and "1 \<le> qty"
  shows "postCart noFaults \<lparr>body_productId = Some (WellFormed productId), body_quantity = Some qty\<rparr> s =
           (let s' = s\<lparr>cartItemDocs := cartItemDocs s @
                          [\<lparr>cartItem_id = nextObjectId s, product = productId, quantity = qty\<rparr>],
                        nextObjectId := Suc (nextObjectId s)\<rparr>
            in (Status201 (map_option (populate s') (CartItem_findById (nextObjectId s) s')), s'))"
  using assms
  by (simp add: postCart_def respondWithItem_def noFaults_def cartItemSchema_valid_def Let_def)

lemma Product_findById_cart_update [simp]:
  "Product_findById i (s\<lparr>cartItemDocs := cs\<rparr>) = Product_findById i s"
  "Product_findById i (s\<lparr>nextObjectId := n\<rparr>) = Product_findById i s"
  by (simp_all add: Product_findById_def)

lemma postCart_result:
  assumes "Product_findById productId s \<noteq> None" and "1 \<le> qty" and "ids_inv s"
  shows "\<exists>c. CartItem_findOne productId
               (snd (postCart noFaults \<lparr>body_productId = Some (WellFormed productId), body_quantity = Some qty\<rparr> s))
               = Some c
           \<and> quantity c = qty
           \<and> fst (postCart noFaults \<lparr>body_productId = Some (WellFormed productId), body_quantity = Some qty\<rparr> s)
               = Status201 (Some (populate s c))"
proof (cases "CartItem_findOne productId s")
  case None
  from assms(1) obtain p where p: "Product_findById productId s = Some p" by auto
  let ?new = "\<lparr>cartItem_id = nextObjectId s, product = productId, quantity = qty\<rparr>"
  from assms(3) have lt: "list_all (\<lambda>c. cartItem_id c < nextObjectId s) (cartItemDocs s)"
    by (simp add: ids_inv_def)
  have a: "find (\<lambda>c. cartItem_id c = nextObjectId s) (cartItemDocs s @ [?new]) = Some ?new"
    by (rule find_id_append_new[OF lt]) simp
  have b: "find (\<lambda>c. product c = productId) (cartItemDocs s @ [?new]) = Some ?new"
    using None by (intro find_product_append_new) (simp_all add: CartItem_findOne_def)
  show ?thesis
    using a b by (simp add: postCart_new[OF None p assms(2)] Let_def CartItem_findById_def
        CartItem_findOne_def populate_def)
next
  case (Some c0)
  from assms(3) have d: "distinct (map cartItem_id (cartItemDocs s))"
    by (simp add: ids_inv_def)
  from Some have f: "find (\<lambda>c. product c = productId) (cartItemDocs s) = Some c0"
    by (simp add: CartItem_findOne_def)
  from find_product_Some[OF f] have m: "c0 \<in> set (cartItemDocs s)" by simp
  have a: "find (\<lambda>c. cartItem_id c = cartItem_id c0)
             (updateQuantity (cartItem_id c0) qty (cartItemDocs s)) = Some (c0\<lparr>quantity := qty\<rparr>)"
    by (rule find_id_updateQuantity[OF m d])
  have b: "find (\<lambda>c. product c = productId)
             (updateQuantity (cartItem_id c0) qty (cartItemDocs s)) = Some (c0\<lparr>quantity := qty\<rparr>)"
    by (rule find_product_updateQuantity[OF d f])
  show ?thesis
    using a b by (simp add: postCart_existing[OF Some assms(2)] Let_def CartItem_findById_def
        CartItem_findOne_def populate_def)
qed

lemma postCart_quantities:
  assumes "Product_findById productId s \<noteq> None" and "1 \<le> qty" and "ids_inv s"
    and "cart_unique s"
  shows "map quantity (filter (\<lambda>c. product c = productId)
           (cartItemDocs (snd (postCart noFaults
               \<lparr>body_productId = Some (WellFormed productId), body_quantity = Some qty\<rparr> s)))) = [qty]"
proof (cases "CartItem_findOne productId s")
  case None
  from assms(1) obtain p where p: "Product_findById productId s = Some p" by auto
  let ?new = "\<lparr>cartItem_id = nextObjectId s, product = productId, quantity = qty\<rparr>"
  have "filter (\<lambda>c. product c = productId) (cartItemDocs s @ [?new]) = [?new]"
    using None by (intro filter_product_append_new) (simp_all add: CartItem_findOne_def)
  then show ?thesis
    by (simp add: postCart_new[OF None p assms(2)] Let_def)
next
  case (Some c0)
  from assms(3) have d: "distinct (map cartItem_id (cartItemDocs s))"
    by (simp add: ids_inv_def)
  from assms(4) have u: "distinct (map product (cartItemDocs s))"
    by (simp add: cart_unique_def)
  from Some have f: "find (\<lambda>c. product c = productId) (cartItemDocs s) = Some c0"
    by (simp add: CartItem_findOne_def)
  have "filter (\<lambda>c. product c = productId)
          (updateQuantity (cartItem_id c0) qty (cartItemDocs s)) = [c0\<lparr>quantity := qty\<rparr>]"
    by (rule filter_product_updateQuantity[OF d u f])
  then show ?thesis
    by (simp add: postCart_existing[OF Some assms(2)] Let_def)
qed

lemma postCart_keeps_products:
  "productDocs (snd (postCart f body s)) = productDocs s"
  by (simp add: postCart_def respondWithItem_def Let_def split: option.splits idText.splits)

subsection \<open>Facts of the example states\<close>

lemma demoDb_resolves_mug: "Product_findById 3 demoDb \<noteq> None"
  by (simp add: Product_findById_def demoDb_eval MOCK_PRODUCTS_def)

lemma ids_inv_demoDb: "ids_inv demoDb"
  by (simp add: ids_inv_def demoDb_eval)

lemma cart_unique_demoDb: "cart_unique demoDb"
  by (simp add: cart_unique_def demoDb_eval)

lemma three_halves_not_int: "(3 / 2 :: rat) \<notin> \<int>"
proof
  assume "(3 / 2 :: rat) \<in> \<int>"
  then have "of_int \<lfloor>3 / 2 :: rat\<rfloor> = (3 / 2 :: rat)" by simp
  then show False by (simp add: floor_rat_numeral)
qed

lemma CartItem_findOne_demoDb_mug:
  "CartItem_findOne 3 demoDb = Some \<lparr>cartItem_id = 6, product = 3, quantity = 1\<rparr>"
  by (simp add: CartItem_findOne_def demoDb_eval)

text \<open>The first example of the specification runs as it says: setting the quantity of
  the tee to 2 and then to 1 gives a cart with one tee and the total 25.\<close>

lemma spec_example_overwrite:
  "getCart noFaults
     (snd (postCart noFaults \<lparr>body_productId = Some (WellFormed 0), body_quantity = Some 1\<rparr>
        (snd (postCart noFaults \<lparr>body_productId = Some (WellFormed 0), body_quantity = Some 2\<rparr>
           seededDb))))
   = Status200 \<lparr>cartItems = [\<lparr>populated_id = 6,
         populated_product = Some \<lparr>product_id = 0, name = ''Classic Vibe Tee'', price = 25,
            image = ''https://placehold.co/400x400/2D3748/E2E8F0?text=Vibe+Tee''\<rparr>,
         populated_quantity = 1\<rparr>], total = Finite 25\<rparr>"
  by code_simp

subsection \<open>Invariants\<close>

lemma postCart_products:
  assumes "body_productId body = Some (WellFormed productId)" and "CartItem_findOne productId s = Some c"
  shows "map product (cartItemDocs (snd (postCart f body s))) = map product (cartItemDocs s)"
  using assms
  by (simp add: postCart_def respondWithItem_def map_product_updateQuantity
      split: option.splits idText.splits)

lemma cart_unique_postCart:
  assumes "cart_unique s"
  shows "cart_unique (snd (postCart f body s))"
proof -
  have new: "distinct (map product (cartItemDocs s @ [\<lparr>cartItem_id = n, product = p, quantity = q\<rparr>]))"
    if "CartItem_findOne p s = None" for n p q
    using that assms by (simp add: cart_unique_def CartItem_findOne_def find_product_None)
  show ?thesis
    using assms new
    by (simp add: postCart_def respondWithItem_def cart_unique_def map_product_updateQuantity
        Let_def split: option.splits idText.splits)
qed

lemma cart_unique_deleteCart: "cart_unique s \<Longrightarrow> cart_unique (snd (deleteCart f idt s))"
  by (simp add: deleteCart_def cart_unique_def distinct_map_deleteById
      split: option.splits idText.splits)

lemma cart_unique_checkout: "cart_unique s \<Longrightarrow> cart_unique (snd (checkout f now s))"
  by (simp add: checkout_def cart_unique_def Let_def)

lemma cart_unique_seedDatabase: "cart_unique s \<Longrightarrow> cart_unique (seedDatabase f s)"
  by (simp add: seedDatabase_def cart_unique_def Product_insertMany_def Let_def)

text \<open>With unique identifiers and one line item per product, the update of the line item
  that \<^verbatim>\<open>findOne\<close> returned changes the quantity of the line item of that product, where
  it stands, and nothing else.\<close>

lemma updateQuantity_map:
  assumes "distinct (map cartItem_id cs)" and "distinct (map product cs)"
    and "find (\<lambda>c. product c = p) cs = Some c0"
  shows "updateQuantity (cartItem_id c0) q cs
           = map (\<lambda>c. if product c = p then c\<lparr>quantity := q\<rparr> else c) cs"
  using assms
proof (induction cs)
  case Nil
  then show ?case by simp
next
  case (Cons c cs)
  show ?case
  proof (cases "product c = p")
    case True
    with Cons.prems(3) have c0: "c0 = c" by simp
    from True Cons.prems(2) have "p \<notin> set (map product cs)" by auto
    then have "\<forall>d \<in> set cs. product d \<noteq> p" by auto
    then have "map (\<lambda>c. if product c = p then c\<lparr>quantity := q\<rparr> else c) cs = cs"
      by (simp add: map_idI)
    with True c0 show ?thesis by simp
  next
    case False
    with Cons.prems(3) have f: "find (\<lambda>c. product c = p) cs = Some c0" by simp
    from Cons.prems(1,2) have d: "distinct (map cartItem_id cs)" "distinct (map product cs)"
      by simp_all
    have ih: "updateQuantity (cartItem_id c0) q cs
                = map (\<lambda>c. if product c = p then c\<lparr>quantity := q\<rparr> else c) cs"
      by (rule Cons.IH[OF d f])
    from find_product_Some[OF f] have "c0 \<in> set cs" by simp
    with Cons.prems(1) have "cartItem_id c \<noteq> cartItem_id c0" by auto
    with False ih show ?thesis by simp
  qed
qed

lemma postCart_updates_in_place:
  assumes "cart_unique s" and "ids_inv s" and "CartItem_findOne productId s \<noteq> None"
    and "1 \<le> qty" and "\<not> f Post_findOne" and "\<not> f Post_save_existing"
  shows "cartItemDocs (snd (postCart f
             \<lparr>body_productId = Some (WellFormed productId), body_quantity = Some qty\<rparr> s))
           = map (\<lambda>c. if product c = productId then c\<lparr>quantity := qty\<rparr> else c)
               (cartItemDocs s)"
proof -
  from assms(3) obtain c0 where c0: "CartItem_findOne productId s = Some c0" by auto
  then have f: "find (\<lambda>c. product c = productId) (cartItemDocs s) = Some c0"
    by (simp add: CartItem_findOne_def)
  from assms(1,2) have d: "distinct (map cartItem_id (cartItemDocs s))"
    "distinct (map product (cartItemDocs s))"
    by (simp_all add: cart_unique_def ids_inv_def)
  have "cartItemDocs (snd (postCart f
             \<lparr>body_productId = Some (WellFormed productId), body_quantity = Some qty\<rparr> s))
          = updateQuantity (cartItem_id c0) qty (cartItemDocs s)"
    using c0 assms(4-6)
    by (simp add: postCart_def respondWithItem_def cartItemSchema_valid_def)
  then show ?thesis by (simp only: updateQuantity_map[OF d f])
qed

subsection \<open>The DELETE handler\<close>

lemma getCart_ids:
  "\<not> g GetCart_find \<Longrightarrow>
     \<exists>b. getCart g s = Status200 b
       \<and> map populated_id (cartItems b) = map cartItem_id (cartItemDocs s)"
  by (simp add: getCart_def Let_def populate_def comp_def)

subsection \<open>The identifiers stay unique\<close>

lemma ids_inv_emptyDb: "ids_inv emptyDb"
  by (simp add: ids_inv_def emptyDb_def)

lemma list_all_less_Suc:
  "list_all (\<lambda>c. cartItem_id c < n) cs \<Longrightarrow> list_all (\<lambda>c. cartItem_id c < Suc n) cs"
  by (induction cs) auto

lemma list_all_less_add:
  "list_all (\<lambda>c. cartItem_id c < n) cs \<Longrightarrow> list_all (\<lambda>c. cartItem_id c < n + k) cs"
  by (induction cs) auto

lemma list_all_less_fresh:
  "list_all (\<lambda>c. cartItem_id c < n) cs \<Longrightarrow> n \<notin> cartItem_id ` set cs"
  by (induction cs) auto

lemma ids_inv_postCart:
  assumes "ids_inv s"
  shows "ids_inv (snd (postCart f body s))"
  using assms
  by (simp add: postCart_def respondWithItem_def ids_inv_def map_id_updateQuantity
      list_all_id_updateQuantity list_all_less_Suc list_all_less_fresh Let_def
      split: option.splits idText.splits)

lemma ids_inv_deleteCart: "ids_inv s \<Longrightarrow> ids_inv (snd (deleteCart f idt s))"
  by (simp add: deleteCart_def ids_inv_def distinct_map_deleteById list_all_deleteById
      split: option.splits idText.splits)

lemma ids_inv_checkout: "ids_inv s \<Longrightarrow> ids_inv (snd (checkout f now s))"
  by (simp add: checkout_def ids_inv_def Let_def)

lemma ids_inv_seedDatabase: "ids_inv s \<Longrightarrow> ids_inv (seedDatabase f s)"
  by (simp add: seedDatabase_def ids_inv_def Product_insertMany_def Let_def list_all_less_add)

lemma ids_inv_removeProduct: "ids_inv s \<Longrightarrow> ids_inv (removeProduct i s)"
  by (simp add: removeProduct_def ids_inv_def)

lemma cart_unique_removeProduct: "cart_unique s \<Longrightarrow> cart_unique (removeProduct i s)"
  by (simp add: removeProduct_def cart_unique_def)

text \<open>Every state the server can be in has unique identifiers and at most one line item
  per product.\<close>

lemma reachable_invariants: "reachable s \<Longrightarrow> ids_inv s \<and> cart_unique s"
proof (induction rule: reachable.induct)
  case r_empty
  show ?case by (simp add: ids_inv_def cart_unique_def emptyDb_def)
next
  case (r_seed s f)
  then show ?case by (simp add: ids_inv_seedDatabase cart_unique_seedDatabase)
next
  case (r_post s f body)
  then show ?case by (simp add: ids_inv_postCart cart_unique_postCart)
next
  case (r_delete s f idt)
  then show ?case by (simp add: ids_inv_deleteCart cart_unique_deleteCart)
next
  case (r_checkout s f now)
  then show ?case by (simp add: ids_inv_checkout cart_unique_checkout)
next
  case (r_remove s i)
  then show ?case by (simp add: ids_inv_removeProduct cart_unique_removeProduct)
qed

lemma reachable_demoDb: "reachable demoDb"
  unfolding demoDb_def seededDb_def
  by (intro reachable.r_post reachable.r_seed reachable.r_empty)

lemma reachable_danglingDb: "reachable danglingDb"
  unfolding danglingDb_def
  by (intro reachable.r_remove reachable.r_post reachable_demoDb)

subsection \<open>Totals of the example states\<close>

lemma reachable_bigDb: "reachable bigDb"
  unfolding bigDb_def seededDb_def
  by (intro reachable.r_post reachable.r_seed reachable.r_empty)

lemma reachable_fracDb: "reachable fracDb"
  unfolding fracDb_def by (intro reachable.r_post reachable_demoDb)

lemma getCart_bigDb:
  "getCart noFaults bigDb =
     Status200 \<lparr>cartItems = map (populate bigDb) (cartItemDocs bigDb),
                total = Finite (8313600000000831 / 64)\<rparr>"
  by code_simp

lemma exact_total_bigDb: "exact_total bigDb = nearestDouble (1299 / 100) * 10000000000001"
  by code_simp

lemma getCart_fracDb:
  "getCart noFaults fracDb =
     Status200 \<lparr>cartItems = map (populate fracDb) (cartItemDocs fracDb),
                total = Finite (nearestDouble (7498 / 100))\<rparr>"
  by code_simp

lemma exact_total_fracDb:
  "exact_total fracDb = nearestDouble (1299 / 100) * (3 / 2) + 111 / 2
   \<and> toFixed2 (exact_total fracDb) = 7499 / 100"
  by code_simp

lemma getCart_danglingDb:
  "getCart noFaults danglingDb =
     Status200 \<lparr>cartItems = map (populate danglingDb) (cartItemDocs danglingDb),
                total = Finite (nearestDouble (6849 / 100))\<rparr>"
  by code_simp

lemma float_total_danglingDb: "float_total danglingDb = Finite (nearestDouble (6849 / 100))"
  by code_simp

section \<open>The claims\<close>

text \<open>
  Claim C1, as the specification states it: the total of \<^verbatim>\<open>GET /api/cart\<close> is the sum of
  price times quantity over the resolving line items, rounded to two decimal places. The
  handler adds and multiplies doubles. For a cart of 10000000000001 mugs at 12.99, which
  one call of \<^verbatim>\<open>POST /api/cart\<close> on the seeded store produces, the product is rounded to
  129900000000012.984375, the total returned is that double, and it lies more than half
  a hundredth away from the exact sum, whether the price is read as the double that is
  stored or as the decimal 12.99.
\<close>

theorem getCart_total_counterexample:
  "getCart noFaults bigDb =
     Status200 \<lparr>cartItems = map (populate bigDb) (cartItemDocs bigDb),
                total = Finite (8313600000000831 / 64)\<rparr>
   \<and> exact_total bigDb = nearestDouble (1299 / 100) * 10000000000001
   \<and> 1 / 200 < \<bar>8313600000000831 / 64 - exact_total bigDb\<bar>
   \<and> 1 / 200 < \<bar>8313600000000831 / 64 - (1299 / 100) * 10000000000001 :: rat\<bar>"
proof -
  have "1 / 200 < \<bar>8313600000000831 / 64 - nearestDouble (1299 / 100) * 10000000000001\<bar>"
    by (simp add: nearestDouble_1299)
  moreover have "1 / 200 < \<bar>8313600000000831 / 64 - (1299 / 100) * 10000000000001 :: rat\<bar>"
    by simp
  ultimately show ?thesis
    by (simp only: getCart_bigDb exact_total_bigDb simp_thms)
qed

text \<open>
  Claim C1, amended. For every cart state, the total of \<^verbatim>\<open>GET /api/cart\<close> is computed in
  double arithmetic: over the line items whose product reference resolves, in their
  order, each price times quantity is rounded to a double and added to the sum so far,
  which is rounded to a double again; the result is written with two decimal places by
  \<^verbatim>\<open>toFixed(2)\<close> and read back as a double. When that sum is finite and of magnitude below
  \<open>10 ^ 21\<close>, the decimal written is a whole number of hundredths within half a hundredth
  of the sum in doubles (not, in general, of the exact sum). A line item whose product
  does not resolve adds nothing and is still in the returned sequence, with \<^verbatim>\<open>null\<close> for
  its product.
\<close>

theorem getCart_total:
  assumes "\<not> f GetCart_find"
  shows "getCart f s =
           Status200 \<lparr>cartItems = map (populate s) (cartItemDocs s),
                      total = parseFloat_toFixed2 (float_total s)\<rparr>
       \<and> (\<forall>x. float_total s = Finite x \<and> \<bar>x\<bar> < 10 ^ 21 \<longrightarrow>
              parseFloat_toFixed2 (float_total s) = fl (toFixed2 x)
              \<and> (\<exists>n::int. toFixed2 x = of_int n / 100)
              \<and> \<bar>toFixed2 x - x\<bar> \<le> 1 / 200)
       \<and> (\<forall>c \<in> set (cartItemDocs s). \<not> resolves s c \<longrightarrow>
            \<lparr>populated_id = cartItem_id c, populated_product = None,
             populated_quantity = quantity c\<rparr> \<in> set (map (populate s) (cartItemDocs s)))"
proof -
  have "getCart f s =
           Status200 \<lparr>cartItems = map (populate s) (cartItemDocs s),
                      total = parseFloat_toFixed2 (float_total s)\<rparr>"
    using assms by (simp add: getCart_def reduceTotal_float)
  moreover have "\<forall>c \<in> set (cartItemDocs s). \<not> resolves s c \<longrightarrow>
            \<lparr>populated_id = cartItem_id c, populated_product = None,
             populated_quantity = quantity c\<rparr> \<in> set (map (populate s) (cartItemDocs s))"
    using populate_unresolved by (metis image_eqI list.set_map)
  moreover have "parseFloat_toFixed2 (float_total s) = fl (toFixed2 x)"
    if "float_total s = Finite x" "\<bar>x\<bar> < 10 ^ 21" for x
    using that by (simp add: parseFloat_toFixed2_def)
  ultimately show ?thesis
    using toFixed2_hundredths toFixed2_nearest by blast
qed

theorem getCart_total_witness:
  "\<not> noFaults GetCart_find
   \<and> getCart noFaults danglingDb =
       Status200 \<lparr>cartItems = map (populate danglingDb) (cartItemDocs danglingDb),
                  total = Finite (nearestDouble (6849 / 100))\<rparr>
   \<and> float_total danglingDb = Finite (nearestDouble (6849 / 100))
   \<and> \<bar>nearestDouble (6849 / 100)\<bar> < 10 ^ 21
   \<and> toFixed2 (nearestDouble (6849 / 100)) = 6849 / 100
   \<and> \<not> resolves danglingDb \<lparr>cartItem_id = 8, product = 0, quantity = 2\<rparr>
   \<and> \<lparr>populated_id = 8, populated_product = None, populated_quantity = 2\<rparr>
         \<in> set (map (populate danglingDb) (cartItemDocs danglingDb))"
proof -
  have nf: "\<not> noFaults GetCart_find" by (rule noFaults_False)
  have b: "\<bar>nearestDouble (6849 / 100)\<bar> < 10 ^ 21"
    "toFixed2 (nearestDouble (6849 / 100)) = 6849 / 100"
    by code_simp+
  have u: "\<not> resolves danglingDb \<lparr>cartItem_id = 8, product = 0, quantity = 2\<rparr>"
    by (simp add: resolves_def Product_findById_def danglingDb_eval MOCK_PRODUCTS_def)
  have m: "\<lparr>cartItem_id = 8, product = 0, quantity = 2\<rparr> \<in> set (cartItemDocs danglingDb)"
    by (simp add: danglingDb_eval)
  from getCart_total[of noFaults danglingDb] nf u m
  have "getCart noFaults danglingDb =
       Status200 \<lparr>cartItems = map (populate danglingDb) (cartItemDocs danglingDb),
                  total = parseFloat_toFixed2 (float_total danglingDb)\<rparr>
     \<and> \<lparr>populated_id = 8, populated_product = None, populated_quantity = 2\<rparr>
         \<in> set (map (populate danglingDb) (cartItemDocs danglingDb))"
    by auto
  moreover have "parseFloat_toFixed2 (float_total danglingDb) = Finite (nearestDouble (6849 / 100))"
    using getCart_danglingDb calculation by simp
  ultimately show ?thesis
    using nf b u float_total_danglingDb by simp
qed

text \<open>
  Claim C2. For every product that resolves in the Catalog Store and every quantity of at
  least 1, \<^verbatim>\<open>POST /api/cart\<close> followed by \<^verbatim>\<open>GET /api/cart\<close> shows exactly one line
  item for that product, and its quantity is the quantity supplied: the value is
  overwritten, whatever the quantity was before. The state is any state in which the cart
  holds at most one line item per product and the \<^verbatim>\<open>_id\<close>s are unique, and no
  database operation fails.
\<close>

theorem postCart_then_getCart:
  assumes "Product_findById productId s \<noteq> None" and "1 \<le> qty"
    and "ids_inv s" and "cart_unique s" and "\<not> g GetCart_find"
  shows "\<exists>item b.
           fst (postCart noFaults \<lparr>body_productId = Some (WellFormed productId), body_quantity = Some qty\<rparr> s)
             = Status201 item
         \<and> getCart g (snd (postCart noFaults
               \<lparr>body_productId = Some (WellFormed productId), body_quantity = Some qty\<rparr> s)) = Status200 b
         \<and> quantitiesOf productId b = [qty]"
proof -
  let ?s' = "snd (postCart noFaults \<lparr>body_productId = Some (WellFormed productId), body_quantity = Some qty\<rparr> s)"
  from postCart_result[OF assms(1-3)] obtain item where
    r: "fst (postCart noFaults \<lparr>body_productId = Some (WellFormed productId), body_quantity = Some qty\<rparr> s)
          = Status201 item"
    by blast
  have res: "Product_findById productId ?s' \<noteq> None"
    using assms(1) by (simp add: Product_findById_def postCart_keeps_products)
  have g: "getCart g ?s' = Status200 \<lparr>cartItems = map (populate ?s') (cartItemDocs ?s'),
              total = parseFloat_toFixed2 (reduceTotal (map (populate ?s') (cartItemDocs ?s')))\<rparr>"
    using assms(5) by (simp add: getCart_def Let_def)
  have "quantitiesOf productId \<lparr>cartItems = map (populate ?s') (cartItemDocs ?s'),
              total = parseFloat_toFixed2 (reduceTotal (map (populate ?s') (cartItemDocs ?s')))\<rparr> = [qty]"
    by (simp only: quantitiesOf_getCart[OF res] postCart_quantities[OF assms(1-4)])
  with r g show ?thesis by blast
qed

theorem postCart_then_getCart_witness:
  "Product_findById 3 demoDb \<noteq> None \<and> (1::rat) \<le> 5 \<and> ids_inv demoDb \<and> cart_unique demoDb
   \<and> \<not> noFaults GetCart_find
   \<and> (\<exists>item b.
           fst (postCart noFaults \<lparr>body_productId = Some (WellFormed 3), body_quantity = Some 5\<rparr> demoDb)
             = Status201 item
         \<and> getCart noFaults (snd (postCart noFaults
               \<lparr>body_productId = Some (WellFormed 3), body_quantity = Some 5\<rparr> demoDb)) = Status200 b
         \<and> quantitiesOf 3 b = [5])"
proof -
  have q: "(1::rat) \<le> 5" by simp
  have n: "\<not> noFaults GetCart_find" by (rule noFaults_False)
  from postCart_then_getCart[of 3 demoDb 5 noFaults,
      OF demoDb_resolves_mug q ids_inv_demoDb cart_unique_demoDb n]
  show ?thesis
    using demoDb_resolves_mug ids_inv_demoDb cart_unique_demoDb n q by blast
qed

text \<open>
  Claim C3. For every non-empty cart state, \<^verbatim>\<open>POST /api/checkout\<close> returns a receipt
  whose total is the total that \<^verbatim>\<open>GET /api/cart\<close> returns immediately before it, and
  \<^verbatim>\<open>GET /api/cart\<close> after the checkout returns an empty cart with total 0 (no
  database operation failing).
\<close>

theorem checkout_receipt_total:
  assumes "cartItemDocs s \<noteq> []"
    and "\<not> f Checkout_find" and "\<not> f Checkout_deleteMany" and "\<not> g GetCart_find"
  shows "\<exists>b r. getCart g s = Status200 b
           \<and> fst (checkout f now s) = Status200 r
           \<and> order_total (order r) = total b
           \<and> getCart g (snd (checkout f now s)) = Status200 \<lparr>cartItems = [], total = Finite 0\<rparr>"
proof -
  have "cartItemDocs (snd (checkout f now s)) = []"
    using assms by (simp add: checkout_def)
  then have "getCart g (snd (checkout f now s)) = Status200 \<lparr>cartItems = [], total = Finite 0\<rparr>"
    using assms(4) by (simp add: getCart_empty)
  then show ?thesis
    using assms by (simp add: checkout_def getCart_def Let_def)
qed

theorem checkout_receipt_total_witness:
  "cartItemDocs demoDb \<noteq> []
   \<and> \<not> noFaults Checkout_find \<and> \<not> noFaults Checkout_deleteMany \<and> \<not> noFaults GetCart_find
   \<and> (\<exists>b r. getCart noFaults demoDb = Status200 b
           \<and> fst (checkout noFaults ''2025-11-08T10:00:00.000Z'' demoDb) = Status200 r
           \<and> order_total (order r) = total b
           \<and> getCart noFaults (snd (checkout noFaults ''2025-11-08T10:00:00.000Z'' demoDb))
               = Status200 \<lparr>cartItems = [], total = Finite 0\<rparr>)"
proof -
  have ne: "cartItemDocs demoDb \<noteq> []" by (simp add: demoDb_eval)
  from checkout_receipt_total[of demoDb noFaults noFaults, OF ne noFaults_False noFaults_False noFaults_False]
  show ?thesis using ne by (simp add: noFaults_False)
qed

text \<open>
  Claim C4, as the specification states it: when clearing the Cart Store fails after the
  receipt has been computed, the checkout still returns the receipt. The handler does not:
  \<^verbatim>\<open>await CartItem.deleteMany({})\<close> stands inside the \<^verbatim>\<open>try\<close> block and before
  \<^verbatim>\<open>res.json\<close>, so its failure reaches the \<^verbatim>\<open>catch\<close> block. With two items in the
  cart and only the clearing step failing, the answer is status 500.
\<close>

theorem checkout_clear_failure_counterexample:
  "\<not> clearFails Checkout_find \<and> clearFails Checkout_deleteMany
   \<and> fst (checkout clearFails ''2025-11-08T10:00:00.000Z'' demoDb)
       = Status500 ''Server error during checkout.''"
  by (simp add: clearFails_def checkout_def)

text \<open>
  Claim C4, amended. When the cart has been read and clearing the Cart Store fails, the
  checkout answers with status 500 and the message of a server error, not with the
  receipt; nothing is rolled back, and the cart is as the failed clearing step left it
  (unchanged, in this model).
\<close>

theorem checkout_clear_failure:
  assumes "\<not> f Checkout_find" and "f Checkout_deleteMany"
  shows "checkout f now s = (Status500 ''Server error during checkout.'', s)"
  using assms by (simp add: checkout_def)

theorem checkout_clear_failure_witness:
  "\<not> clearFails Checkout_find \<and> clearFails Checkout_deleteMany
   \<and> checkout clearFails ''2025-11-08T10:00:00.000Z'' demoDb
       = (Status500 ''Server error during checkout.'', demoDb)"
  using checkout_clear_failure[of clearFails "''2025-11-08T10:00:00.000Z''" demoDb]
  by (simp add: clearFails_def)




text \<open>
  Claim C6. At most one line item per product reference is an invariant of the Cart
  Store: it holds of the empty store and every operation preserves it, whatever fails
  (add or update, remove, checkout with its clearing step, seeding). A
  \<^verbatim>\<open>POST /api/cart\<close> for a product that has a line item never appends a second one: the
  sequence of product references stays as it was, whatever fails; and when the call gets
  as far as the save, the cart afterwards is the cart before with the quantity of that
  line item replaced, where it stands, by the quantity supplied.
\<close>

theorem cart_unique_invariant:
  "cart_unique emptyDb
   \<and> (cart_unique s \<longrightarrow>
        cart_unique (snd (postCart f body s))
        \<and> cart_unique (snd (deleteCart f idt s))
        \<and> cart_unique (snd (checkout f now s))
        \<and> cart_unique (seedDatabase f s))
   \<and> (body_productId body = Some (WellFormed productId)
        \<and> CartItem_findOne productId s \<noteq> None \<longrightarrow>
        map product (cartItemDocs (snd (postCart f body s))) = map product (cartItemDocs s)
        \<and> length (cartItemDocs (snd (postCart f body s))) = length (cartItemDocs s))
   \<and> (cart_unique s \<and> ids_inv s \<and> CartItem_findOne productId s \<noteq> None \<and> 1 \<le> qty
        \<and> \<not> f Post_findOne \<and> \<not> f Post_save_existing \<longrightarrow>
        cartItemDocs (snd (postCart f
            \<lparr>body_productId = Some (WellFormed productId), body_quantity = Some qty\<rparr> s))
          = map (\<lambda>c. if product c = productId then c\<lparr>quantity := qty\<rparr> else c)
              (cartItemDocs s))"
proof -
  have e: "cart_unique emptyDb" by (simp add: cart_unique_def emptyDb_def)
  have p: "map product (cartItemDocs (snd (postCart f body s))) = map product (cartItemDocs s)"
    if "body_productId body = Some (WellFormed productId)"
      "CartItem_findOne productId s \<noteq> None"
    using that postCart_products by blast
  then have l: "length (cartItemDocs (snd (postCart f body s))) = length (cartItemDocs s)"
    if "body_productId body = Some (WellFormed productId)"
      "CartItem_findOne productId s \<noteq> None"
    using that by (metis length_map)
  have u: "cartItemDocs (snd (postCart f
            \<lparr>body_productId = Some (WellFormed productId), body_quantity = Some qty\<rparr> s))
          = map (\<lambda>c. if product c = productId then c\<lparr>quantity := qty\<rparr> else c)
              (cartItemDocs s)"
    if "cart_unique s" "ids_inv s" "CartItem_findOne productId s \<noteq> None" "1 \<le> qty"
      "\<not> f Post_findOne" "\<not> f Post_save_existing"
    using that by (rule postCart_updates_in_place)
  have i: "cart_unique (snd (postCart f body s)) \<and> cart_unique (snd (deleteCart f idt s))
        \<and> cart_unique (snd (checkout f now s)) \<and> cart_unique (seedDatabase f s)"
    if "cart_unique s"
    using that cart_unique_postCart cart_unique_deleteCart cart_unique_checkout
      cart_unique_seedDatabase by blast
  from e i p l u show ?thesis by blast
qed

theorem cart_unique_invariant_witness:
  "cart_unique demoDb \<and> ids_inv demoDb
   \<and> cart_unique (snd (postCart noFaults
         \<lparr>body_productId = Some (WellFormed 3), body_quantity = Some 4\<rparr> demoDb))
   \<and> cart_unique (snd (deleteCart noFaults (WellFormed 7) demoDb))
   \<and> cart_unique (snd (checkout noFaults ''2025-11-08T10:00:00.000Z'' demoDb))
   \<and> cart_unique (seedDatabase noFaults demoDb)
   \<and> CartItem_findOne 3 demoDb \<noteq> None \<and> (1::rat) \<le> 4
   \<and> cartItemDocs demoDb =
        [\<lparr>cartItem_id = 6, product = 3, quantity = 1\<rparr>,
         \<lparr>cartItem_id = 7, product = 2, quantity = 3\<rparr>]
   \<and> cartItemDocs (snd (postCart noFaults
         \<lparr>body_productId = Some (WellFormed 3), body_quantity = Some 4\<rparr> demoDb)) =
        [\<lparr>cartItem_id = 6, product = 3, quantity = 4\<rparr>,
         \<lparr>cartItem_id = 7, product = 2, quantity = 3\<rparr>]"
proof -
  have f: "CartItem_findOne 3 demoDb \<noteq> None" by (simp add: CartItem_findOne_demoDb_mug)
  have m: "cartItemDocs demoDb =
        [\<lparr>cartItem_id = 6, product = 3, quantity = 1\<rparr>,
         \<lparr>cartItem_id = 7, product = 2, quantity = 3\<rparr>]"
    by (simp add: demoDb_eval)
  have n: "\<not> noFaults Post_findOne" "\<not> noFaults Post_save_existing"
    by (simp_all add: noFaults_False)
  from cart_unique_invariant[of demoDb noFaults
      "\<lparr>body_productId = Some (WellFormed 3), body_quantity = Some 4\<rparr>" "WellFormed 7"
      "''2025-11-08T10:00:00.000Z''" 3 4] cart_unique_demoDb ids_inv_demoDb f m n
  show ?thesis by (simp del: postCart_def)
qed

text \<open>
  Claim C7, as the specification states it: removing an id for which no line item exists
  fails with NotFoundError. The \<^verbatim>\<open>:id\<close> of the URL goes to \<^verbatim>\<open>findByIdAndDelete\<close> as it
  is (lines 236 to 239); for a text that is no ObjectId no line item exists, the query
  throws, and the answer is status 500.
\<close>

theorem deleteCart_malformed_counterexample:
  "deleteCart noFaults Malformed demoDb
     = (Status500 ''Server error while removing from cart.'', demoDb)"
  by (simp add: deleteCart_def noFaults_def removingError_def)

text \<open>
  Claim C7, amended. For every cart state with unique \<^verbatim>\<open>_id\<close>s, no database operation
  failing: \<^verbatim>\<open>DELETE /api/cart/:id\<close> with a well-formed identifier that no line item has
  fails with status 404 (NotFoundError) and leaves the state unchanged; with the
  identifier of a line item it answers with that item and removes it, leaving the other
  line items, and \<^verbatim>\<open>GET /api/cart\<close> afterwards returns no item with that identifier; with
  an identifier that is no well-formed ObjectId it fails with status 500 (StoreError)
  and leaves the state unchanged.
\<close>

theorem deleteCart_then_getCart:
  assumes "ids_inv s" and "\<not> f Delete_findByIdAndDelete" and "\<not> g GetCart_find"
  shows "deleteCart f Malformed s = (Status500 removingError, s)
       \<and> (CartItem_findById i s = None \<longrightarrow>
            deleteCart f (WellFormed i) s = (Status404 ''Cart item not found.'', s))
       \<and> (\<forall>c. CartItem_findById i s = Some c \<longrightarrow>
            deleteCart f (WellFormed i) s =
              (Status200 \<lparr>delete_message = ''Item removed from cart.'', removedItem = c\<rparr>,
               s\<lparr>cartItemDocs := filter (\<lambda>d. cartItem_id d \<noteq> i) (cartItemDocs s)\<rparr>)
            \<and> cartItem_id c = i)
       \<and> (\<exists>b. getCart g (snd (deleteCart f (WellFormed i) s)) = Status200 b
              \<and> i \<notin> set (map populated_id (cartItems b)))"
proof -
  from assms(1) have d: "distinct (map cartItem_id (cartItemDocs s))"
    by (simp add: ids_inv_def)
  have bad: "deleteCart f Malformed s = (Status500 removingError, s)"
    using assms(2) by (simp add: deleteCart_def)
  have none: "deleteCart f (WellFormed i) s = (Status404 ''Cart item not found.'', s)"
    if "CartItem_findById i s = None"
    using that assms(2) by (simp add: deleteCart_def)
  have some: "deleteCart f (WellFormed i) s =
              (Status200 \<lparr>delete_message = ''Item removed from cart.'', removedItem = c\<rparr>,
               s\<lparr>cartItemDocs := filter (\<lambda>d. cartItem_id d \<noteq> i) (cartItemDocs s)\<rparr>)
            \<and> cartItem_id c = i"
    if c: "CartItem_findById i s = Some c" for c
  proof -
    from c have "find (\<lambda>c. cartItem_id c = i) (cartItemDocs s) = Some c"
      by (simp add: CartItem_findById_def)
    from find_id_Some[OF this] have "cartItem_id c = i" by simp
    with c assms(2) show ?thesis
      by (simp add: deleteCart_def deleteById_filter[OF d])
  qed
  have gone: "i \<notin> set (map cartItem_id (cartItemDocs (snd (deleteCart f (WellFormed i) s))))"
  proof (cases "CartItem_findById i s")
    case None
    then have "i \<notin> set (map cartItem_id (cartItemDocs s))"
      by (simp add: CartItem_findById_def find_id_None)
    with None none show ?thesis by simp
  next
    case (Some c)
    with some show ?thesis by auto
  qed
  from getCart_ids[of g "snd (deleteCart f (WellFormed i) s)"] assms(3) gone
  have "\<exists>b. getCart g (snd (deleteCart f (WellFormed i) s)) = Status200 b
              \<and> i \<notin> set (map populated_id (cartItems b))"
    by metis
  with bad none some show ?thesis by blast
qed

theorem deleteCart_then_getCart_witness:
  "ids_inv demoDb \<and> \<not> noFaults Delete_findByIdAndDelete \<and> \<not> noFaults GetCart_find
   \<and> deleteCart noFaults Malformed demoDb = (Status500 removingError, demoDb)
   \<and> CartItem_findById 42 demoDb = None
   \<and> deleteCart noFaults (WellFormed 42) demoDb = (Status404 ''Cart item not found.'', demoDb)
   \<and> CartItem_findById 7 demoDb = Some \<lparr>cartItem_id = 7, product = 2, quantity = 3\<rparr>
   \<and> deleteCart noFaults (WellFormed 7) demoDb =
        (Status200 \<lparr>delete_message = ''Item removed from cart.'',
                    removedItem = \<lparr>cartItem_id = 7, product = 2, quantity = 3\<rparr>\<rparr>,
         demoDb\<lparr>cartItemDocs := filter (\<lambda>d. cartItem_id d \<noteq> 7) (cartItemDocs demoDb)\<rparr>)
   \<and> cartItemDocs (snd (deleteCart noFaults (WellFormed 7) demoDb))
        = [\<lparr>cartItem_id = 6, product = 3, quantity = 1\<rparr>]
   \<and> (\<exists>b. getCart noFaults (snd (deleteCart noFaults (WellFormed 7) demoDb)) = Status200 b
              \<and> 7 \<notin> set (map populated_id (cartItems b)))"
proof -
  have n: "\<not> noFaults Delete_findByIdAndDelete" "\<not> noFaults GetCart_find"
    by (simp_all add: noFaults_False)
  have a: "CartItem_findById 42 demoDb = None"
    by (simp add: CartItem_findById_def demoDb_eval)
  have b: "CartItem_findById 7 demoDb = Some \<lparr>cartItem_id = 7, product = 2, quantity = 3\<rparr>"
    by (simp add: CartItem_findById_def demoDb_eval)
  from deleteCart_then_getCart[of demoDb noFaults noFaults 42, OF ids_inv_demoDb n] a
  have 1: "deleteCart noFaults Malformed demoDb = (Status500 removingError, demoDb)
     \<and> deleteCart noFaults (WellFormed 42) demoDb = (Status404 ''Cart item not found.'', demoDb)"
    by blast
  from deleteCart_then_getCart[of demoDb noFaults noFaults 7, OF ids_inv_demoDb n] b
  have 2: "deleteCart noFaults (WellFormed 7) demoDb =
        (Status200 \<lparr>delete_message = ''Item removed from cart.'',
                    removedItem = \<lparr>cartItem_id = 7, product = 2, quantity = 3\<rparr>\<rparr>,
         demoDb\<lparr>cartItemDocs := filter (\<lambda>d. cartItem_id d \<noteq> 7) (cartItemDocs demoDb)\<rparr>)
     \<and> (\<exists>b. getCart noFaults (snd (deleteCart noFaults (WellFormed 7) demoDb)) = Status200 b
              \<and> 7 \<notin> set (map populated_id (cartItems b)))"
    by blast
  from 2 have 3: "cartItemDocs (snd (deleteCart noFaults (WellFormed 7) demoDb))
        = [\<lparr>cartItem_id = 6, product = 3, quantity = 1\<rparr>]"
    by (simp add: demoDb_eval)
  from 1 2 3 a b n ids_inv_demoDb show ?thesis by blast
qed

text \<open>
  Claim C8. \<^verbatim>\<open>POST /api/checkout\<close> on an empty cart is not rejected: it answers with
  status 200 and a receipt whose total is 0 and whose sequence of order lines is empty.
\<close>

theorem checkout_empty_cart:
  assumes "cartItemDocs s = []" and "\<not> f Checkout_find" and "\<not> f Checkout_deleteMany"
  shows "fst (checkout f now s) =
           Status200 \<lparr>success = True,
                      message = ''Checkout successful! Thank you for your order.'',
                      order = \<lparr>items = [], order_total = Finite 0, orderId = nextObjectId s,
                               timestamp = now\<rparr>\<rparr>"
  using assms by (simp add: checkout_def reduceTotal_def parseFloat_toFixed2_zero)

theorem checkout_empty_cart_witness:
  "cartItemDocs seededDb = []
   \<and> \<not> noFaults Checkout_find \<and> \<not> noFaults Checkout_deleteMany
   \<and> fst (checkout noFaults ''2025-11-08T10:00:00.000Z'' seededDb) =
           Status200 \<lparr>success = True,
                      message = ''Checkout successful! Thank you for your order.'',
                      order = \<lparr>items = [], order_total = Finite 0, orderId = 6,
                               timestamp = ''2025-11-08T10:00:00.000Z''\<rparr>\<rparr>"
proof -
  have e: "cartItemDocs seededDb = []" by (simp add: seededDb_eval)
  have n: "nextObjectId seededDb = 6" by (simp add: seededDb_eval)
  from checkout_empty_cart[of seededDb noFaults, OF e noFaults_False noFaults_False] e n
  show ?thesis by (simp add: noFaults_False)
qed

text \<open>
  Claim C9. Seeding is idempotent. It inserts the mock products only when the Catalog
  Store is empty; on a store that holds a product it changes nothing; run twice in
  sequence it leaves the state that one run leaves, and after a run in which no database
  operation failed every later run changes nothing.
\<close>

theorem seedDatabase_idempotent:
  "seedDatabase f (seedDatabase f s) = seedDatabase f s
   \<and> (productDocs s \<noteq> [] \<longrightarrow> seedDatabase f s = s)
   \<and> (productDocs s = [] \<and> \<not> f Seed_countDocuments \<and> \<not> f Seed_insertMany \<longrightarrow>
        seedDatabase f s = s\<lparr>productDocs := withIds (nextObjectId s) MOCK_PRODUCTS,
                              nextObjectId := nextObjectId s + 6\<rparr>
        \<and> map (\<lambda>p. (name p, price p, image p)) (productDocs (seedDatabase f s)) = MOCK_PRODUCTS)
   \<and> (\<not> f Seed_countDocuments \<and> \<not> f Seed_insertMany \<longrightarrow>
        seedDatabase g (seedDatabase f s) = seedDatabase f s)"
proof -
  have idem: "seedDatabase f (seedDatabase f s) = seedDatabase f s"
  proof (cases "f Seed_countDocuments \<or> f Seed_insertMany")
    case True
    then show ?thesis by (auto simp: seedDatabase_def)
  next
    case False
    then show ?thesis by (simp add: seedDatabase_after_success)
  qed
  have fields: "productDocs s = [] \<and> \<not> f Seed_countDocuments \<and> \<not> f Seed_insertMany \<longrightarrow>
        map (\<lambda>p. (name p, price p, image p)) (productDocs (seedDatabase f s)) = MOCK_PRODUCTS"
    by (simp add: seedDatabase_success withIds_fields)
  from idem fields show ?thesis
    by (simp add: seedDatabase_populated seedDatabase_success seedDatabase_after_success)
qed

theorem seedDatabase_idempotent_witness:
  "seedDatabase noFaults (seedDatabase noFaults emptyDb) = seedDatabase noFaults emptyDb
   \<and> productDocs emptyDb = []
   \<and> map (\<lambda>p. (name p, price p, image p)) (productDocs (seedDatabase noFaults emptyDb))
       = MOCK_PRODUCTS
   \<and> productDocs demoDb \<noteq> [] \<and> seedDatabase noFaults demoDb = demoDb"
proof -
  have a: "productDocs emptyDb = []" by (simp add: emptyDb_def)
  have b: "productDocs demoDb \<noteq> []" by (simp add: demoDb_eval MOCK_PRODUCTS_def)
  have n: "\<not> noFaults Seed_countDocuments \<and> \<not> noFaults Seed_insertMany"
    by (simp add: noFaults_False)
  from seedDatabase_idempotent[of noFaults emptyDb noFaults] a n
  have 1: "seedDatabase noFaults (seedDatabase noFaults emptyDb) = seedDatabase noFaults emptyDb
     \<and> map (\<lambda>p. (name p, price p, image p)) (productDocs (seedDatabase noFaults emptyDb))
       = MOCK_PRODUCTS"
    by blast
  from seedDatabase_idempotent[of noFaults demoDb noFaults] b
  have 2: "seedDatabase noFaults demoDb = demoDb"
    by blast
  from 1 2 a b show ?thesis by blast
qed

text \<open>
  Claim C10. \<^verbatim>\<open>POST /api/cart\<close> does not check that the quantity is a whole number.
  For every product that resolves and every quantity of at least 1, whole or not, the call
  answers with status 201 and the populated line item, and the line item stored for the
  product carries exactly the quantity supplied (the \<^verbatim>\<open>_id\<close>s being unique and no
  database operation failing). The schema declares \<^verbatim>\<open>quantity\<close> a Number with
  minimum 1 and no more. The instance that follows the theorem stores the quantity 3/2.
\<close>

theorem postCart_no_integrality_check:
  assumes "Product_findById productId s \<noteq> None" and "1 \<le> qty" and "ids_inv s"
  shows "\<exists>c. fst (postCart noFaults \<lparr>body_productId = Some (WellFormed productId), body_quantity = Some qty\<rparr> s)
               = Status201 (Some (populate s c))
           \<and> CartItem_findOne productId
               (snd (postCart noFaults \<lparr>body_productId = Some (WellFormed productId), body_quantity = Some qty\<rparr> s))
               = Some c
           \<and> quantity c = qty \<and> populated_quantity (populate s c) = qty"
proof -
  from postCart_result[OF assms] obtain c where
    "CartItem_findOne productId
       (snd (postCart noFaults \<lparr>body_productId = Some (WellFormed productId), body_quantity = Some qty\<rparr> s))
       = Some c"
    "quantity c = qty"
    "fst (postCart noFaults \<lparr>body_productId = Some (WellFormed productId), body_quantity = Some qty\<rparr> s)
       = Status201 (Some (populate s c))"
    by blast
  then show ?thesis by (auto simp: populate_def)
qed

theorem postCart_no_integrality_check_witness:
  "Product_findById 3 demoDb \<noteq> None \<and> (1::rat) \<le> 3 / 2 \<and> (3 / 2 :: rat) \<notin> \<int> \<and> ids_inv demoDb
   \<and> (\<exists>c. fst (postCart noFaults \<lparr>body_productId = Some (WellFormed 3), body_quantity = Some (3 / 2)\<rparr> demoDb)
               = Status201 (Some (populate demoDb c))
           \<and> CartItem_findOne 3
               (snd (postCart noFaults \<lparr>body_productId = Some (WellFormed 3), body_quantity = Some (3 / 2)\<rparr> demoDb))
               = Some c
           \<and> quantity c = 3 / 2 \<and> populated_quantity (populate demoDb c) = 3 / 2)"
proof -
  have q: "(1::rat) \<le> 3 / 2" by simp
  from postCart_no_integrality_check[OF demoDb_resolves_mug q ids_inv_demoDb]
  show ?thesis
    using demoDb_resolves_mug ids_inv_demoDb three_halves_not_int q by blast
qed

end
